theory Spec2Isabelle
  imports Complex_Main "HOL-Library.Word"
begin

unbundle bit_operations_syntax

section \<open>The HLSL shader translator of Xenia (hlsl\_shader\_translator.cc)\<close>

text \<open>
  The translator appends HLSL text to the string buffer \<open>source_inner\<close> while the
  microcode instructions are streamed through its \<open>Process...\<close> hooks. The embedding
  keeps the translator's fields in a record that every hook takes and returns, and
  models the buffer as a \<open>string\<close> that only grows.
\<close>

subsection \<open>Formatting\<close>

text \<open>\<open>%u\<close> of \<open>AppendFormat\<close>: an unsigned 32-bit value in decimal.\<close>

fun string_of_nat :: "nat \<Rightarrow> string" where
  "string_of_nat n =
     (if n < 10 then [''0123456789'' ! n]
      else string_of_nat (n div 10) @ [''0123456789'' ! (n mod 10)])"

declare string_of_nat.simps [simp del]

definition u32_str :: "32 word \<Rightarrow> string" where
  "u32_str w = string_of_nat (unat w)"

subsection \<open>Instruction records\<close>

text \<open>
  Modelled from the spec: the instruction records and their enumerations are declared
  in shader.h and ucode.h, which are not among the sources. A record has the fields
  that the translator reads, under the names the translator uses for them. Field
  names are global in a theory, so each carries a prefix for its structure
  (\<open>op_\<close> for \<open>InstructionOperand\<close>, \<open>res_\<close> for \<open>InstructionResult\<close>,
  \<open>alu_\<close>, \<open>vf_\<close>, \<open>tf_\<close>, \<open>exec_\<close>, \<open>ls_\<close>, \<open>le_\<close> and \<open>jmp_\<close> for
  the parsed instructions), and enumerators that two enumerations share are told
  apart: \<open>kSrcRegister\<close> is \<open>InstructionStorageSource::kRegister\<close>, \<open>kExec...\<close>
  and \<open>kJump...\<close> are the \<open>Type\<close> enumerators of the exec and jump
  instructions, \<open>kAlu...\<close> those of the ALU instruction. The text that
  \<open>Disassemble\<close> appends for an instruction is its field \<open>..._disasm\<close>. Unsigned
  32-bit fields are 32-bit words.
\<close>

text \<open>A fixed array of four elements (\<open>write_mask[4]\<close>, \<open>components[4]\<close>, and the
  four-lane HLSL vectors).\<close>

datatype 'a vec4 = Vec4 (vx: 'a) (vy: 'a) (vz: 'a) (vw: 'a)

definition vec4_list :: "'a vec4 \<Rightarrow> 'a list" where
  "vec4_list v = [vx v, vy v, vz v, vw v]"

datatype InstructionStorageSource =
  kSrcRegister | kConstantFloat | kConstantInt | kConstantBool
  | kTextureFetchConstant | kVertexFetchConstant

datatype InstructionStorageAddressingMode = kStatic | kAddressAbsolute | kAddressRelative

datatype InstructionStorageTarget =
  kNone | kRegister | kInterpolant | kPosition | kPointSize | kColorTarget | kDepth

datatype SwizzleSource = kX | kY | kZ | kW | k0 | k1

text \<open>Modelled from the spec: \<open>GetCharForSwizzle\<close> and
  \<open>GetSwizzleFromComponentIndex\<close> are declared in shader.h, which is not among the
  sources; a component selector is one of x, y, z, w, 0, 1.\<close>

primrec GetCharForSwizzle :: "SwizzleSource \<Rightarrow> char" where
  "GetCharForSwizzle kX = CHR ''x''"
| "GetCharForSwizzle kY = CHR ''y''"
| "GetCharForSwizzle kZ = CHR ''z''"
| "GetCharForSwizzle kW = CHR ''w''"
| "GetCharForSwizzle k0 = CHR ''0''"
| "GetCharForSwizzle k1 = CHR ''1''"

definition GetSwizzleFromComponentIndex :: "nat \<Rightarrow> SwizzleSource" where
  "GetSwizzleFromComponentIndex i = [kX, kY, kZ, kW] ! i"

record InstructionOperand =
  op_storage_source :: InstructionStorageSource
  op_storage_index :: "32 word"
  op_storage_addressing_mode :: InstructionStorageAddressingMode
  op_is_negated :: bool
  op_is_absolute_value :: bool
  op_component_count :: nat
  op_components :: "SwizzleSource vec4"

text \<open>Modelled from the spec: \<open>is_standard_swizzle()\<close> is declared in shader.h; an
  operand is non-swizzled when it reads all four components in the order x, y, z, w.\<close>

definition is_standard_swizzle :: "InstructionOperand \<Rightarrow> bool" where
  "is_standard_swizzle op =
     (op_component_count op = 4 \<and> op_components op = Vec4 kX kY kZ kW)"

record InstructionResult =
  res_storage_target :: InstructionStorageTarget
  res_storage_index :: "32 word"
  res_storage_addressing_mode :: InstructionStorageAddressingMode
  res_is_clamped :: bool
  res_write_mask :: "bool vec4"
  res_components :: "SwizzleSource vec4"

text \<open>Modelled from the spec: \<open>has_any_writes()\<close> is declared in shader.h; it holds
  when the write mask is not all-false.\<close>

definition has_any_writes :: "InstructionResult \<Rightarrow> bool" where
  "has_any_writes r =
     (vx (res_write_mask r) \<or> vy (res_write_mask r) \<or> vz (res_write_mask r)
      \<or> vw (res_write_mask r))"

subsection \<open>Translator state\<close>

text \<open>
  The fields of \<open>HlslShaderTranslator\<close>, named without the trailing
  underscore of the source. \<open>depth_prefix\<close> is the C string of indentation; its array capacity is declared in the header and is not modelled.
  \<open>errors\<close> is the error list of the base class \<open>ShaderTranslator\<close>, and
  \<open>asserts_hit\<close> counts the assertions that were reached. The kind of a resource
  binding (\<open>SRVType\<close>) is an enumeration declared in the header and is modelled by
  its ordinal.
\<close>

type_synonym SRVType = nat

record translator =
  source_inner :: string
  depth :: nat
  depth_prefix :: string
  cf_wrote_pc :: bool
  cf_exec_pred :: bool
  cf_exec_pred_cond :: bool
  writes_depth :: bool
  srv_bindings :: "(SRVType \<times> 32 word) list"
  sampler_fetch_constants :: "32 word list"
  sampler_count :: nat
  cube_used :: bool
  errors :: "string list"
  asserts_hit :: nat

definition EmitSource :: "string \<Rightarrow> translator \<Rightarrow> translator" where
  "EmitSource s st = st\<lparr>source_inner := source_inner st @ s\<rparr>"

definition EmitSourceDepth :: "string \<Rightarrow> translator \<Rightarrow> translator" where
  "EmitSourceDepth s st = EmitSource s (EmitSource (depth_prefix st) st)"

text \<open>Modelled from the spec: \<open>assert_always()\<close> is declared in
  xenia/base/assert.h, which is not among the sources. It signals an assertion-class
  failure: a checked build stops there, and otherwise it is compiled out and the
  code goes on with the statement that follows. The model notes that the assertion
  was reached and goes on.\<close>

definition assert_always :: "translator \<Rightarrow> translator" where
  "assert_always st = st\<lparr>asserts_hit := Suc (asserts_hit st)\<rparr>"

text \<open>The text a hook has appended: what \<open>st'\<close> holds beyond \<open>st\<close>.\<close>

definition emitted :: "translator \<Rightarrow> translator \<Rightarrow> string" where
  "emitted st st' = drop (length (source_inner st)) (source_inner st')"

text \<open>\<open>Indent\<close> writes two spaces and the terminator at \<open>depth\<close>; \<open>Unindent\<close>
  moves the terminator back by two. \<open>Unindent\<close> is only reached after a matching
  \<open>Indent\<close>, so \<open>depth - 2\<close> never goes below zero in the program.\<close>

definition Indent :: "translator \<Rightarrow> translator" where
  "Indent st =
     st\<lparr>depth_prefix := take (depth st) (depth_prefix st) @ ''  '',
        depth := depth st + 2\<rparr>"

definition Unindent :: "translator \<Rightarrow> translator" where
  "Unindent st =
     st\<lparr>depth := depth st - 2,
        depth_prefix := take (depth st - 2) (depth_prefix st)\<rparr>"

subsection \<open>Error reporting\<close>

text \<open>Modelled from the spec: \<open>ShaderTranslator::EmitTranslationError\<close> and
  \<open>ShaderTranslator::EmitUnimplementedTranslationError\<close> belong to the base class,
  which is not among the sources; they record the error for the caller.\<close>

definition ShaderTranslator_EmitTranslationError :: "string \<Rightarrow> translator \<Rightarrow> translator" where
  "ShaderTranslator_EmitTranslationError message st = st\<lparr>errors := errors st @ [message]\<rparr>"

definition ShaderTranslator_EmitUnimplementedTranslationError :: "translator \<Rightarrow> translator" where
  "ShaderTranslator_EmitUnimplementedTranslationError st =
     st\<lparr>errors := errors st @ [''UNIMPLEMENTED TRANSLATION'']\<rparr>"

definition EmitTranslationError :: "string \<Rightarrow> translator \<Rightarrow> translator" where
  "EmitTranslationError message st =
     EmitSourceDepth (''// TRANSLATION ERROR: '' @ message @ ''\<newline>'')
       (ShaderTranslator_EmitTranslationError message st)"

definition EmitUnimplementedTranslationError :: "translator \<Rightarrow> translator" where
  "EmitUnimplementedTranslationError st =
     EmitSourceDepth ''// UNIMPLEMENTED TRANSLATION\<newline>''
       (ShaderTranslator_EmitUnimplementedTranslationError st)"

subsection \<open>Predicate guards\<close>

text \<open>The line \<^verbatim>\<open>if (%cxe_p0) {\<close> that tests the predicate with a polarity; the
  predicated exec block and the predicated jump emit the same.\<close>

definition predicate_test :: "bool \<Rightarrow> string" where
  "predicate_test condition =
     ''if ('' @ [if condition then CHR '' '' else CHR ''!''] @ ''xe_p0) {\<newline>''"

definition BeginPredicatedInstruction :: "bool \<Rightarrow> bool \<Rightarrow> translator \<Rightarrow> bool \<times> translator" where
  "BeginPredicatedInstruction is_predicated predicate_condition st =
     (if is_predicated \<and> (\<not> cf_exec_pred st \<or> cf_exec_pred_cond st \<noteq> predicate_condition)
      then (True, Indent (EmitSourceDepth (predicate_test predicate_condition) st))
      else (False, st))"

definition EndPredicatedInstruction :: "bool \<Rightarrow> translator \<Rightarrow> translator" where
  "EndPredicatedInstruction conditional_emitted st =
     (if conditional_emitted then EmitSourceDepth ''}\<newline>'' (Unindent st) else st)"

subsection \<open>Operand loads\<close>

text \<open>The first switch of \<open>EmitLoadOperand\<close>: the index mask of the storage, or no
  value for a fetch constant (the \<open>default\<close> case asserts and returns).\<close>

primrec storage_index_max :: "InstructionStorageSource \<Rightarrow> (32 word) option" where
  "storage_index_max kSrcRegister = Some 127"
| "storage_index_max kConstantFloat = Some 255"
| "storage_index_max kConstantBool = Some 255"
| "storage_index_max kConstantInt = Some 31"
| "storage_index_max kTextureFetchConstant = None"
| "storage_index_max kVertexFetchConstant = None"

text \<open>The statement that computes \<open>xe_src_index\<close> when the addressing is dynamic.\<close>

definition EmitLoadOperand_index :: "InstructionOperand \<Rightarrow> 32 word \<Rightarrow> translator \<Rightarrow> translator" where
  "EmitLoadOperand_index op index_max st =
     (case op_storage_addressing_mode op of
        kAddressAbsolute \<Rightarrow>
          EmitSourceDepth (''xe_src_index = uint('' @ u32_str (op_storage_index op)
            @ '' + xe_a0) & '' @ u32_str index_max @ ''u;\<newline>'') st
      | kAddressRelative \<Rightarrow>
          EmitSourceDepth (''xe_src_index = uint('' @ u32_str (op_storage_index op)
            @ '' + xe_aL.x) & '' @ u32_str index_max @ ''u;\<newline>'') st
      | kStatic \<Rightarrow> st)"

text \<open>The base expression of the storage. The \<open>default\<close> cases are out of reach
  here: a fetch constant has already returned.\<close>

definition EmitLoadOperand_base :: "InstructionOperand \<Rightarrow> translator \<Rightarrow> translator" where
  "EmitLoadOperand_base op st =
     (if op_storage_addressing_mode op = kStatic then
        (case op_storage_source op of
           kSrcRegister \<Rightarrow> EmitSource (''xe_r['' @ u32_str (op_storage_index op) @ '']'') st
         | kConstantFloat \<Rightarrow>
             EmitSource (''xe_float_constants['' @ u32_str (drop_bit 5 (op_storage_index op))
               @ ''].c['' @ u32_str (op_storage_index op AND 31) @ '']'') st
         | kConstantInt \<Rightarrow>
             EmitSource (''xe_loop_constants['' @ u32_str (op_storage_index op) @ '']'') st
         | kConstantBool \<Rightarrow>
             EmitSource (''float((xe_bool_constants['' @ u32_str (drop_bit 5 (op_storage_index op))
               @ ''] >> '' @ u32_str (op_storage_index op AND 31) @ ''u) & 1u)'') st
         | _ \<Rightarrow> assert_always st)
      else
        (case op_storage_source op of
           kSrcRegister \<Rightarrow> EmitSource ''xe_r[xe_src_index]'' st
         | kConstantFloat \<Rightarrow>
             EmitSource ''xe_float_constants[xe_src_index >> 5u].c[xe_src_index & 31u]'' st
         | kConstantInt \<Rightarrow> EmitSource ''xe_loop_constants[xe_src_index]'' st
         | kConstantBool \<Rightarrow>
             EmitSource (''float((xe_bool_constants[xe_src_index >> 5u] >> ''
               @ ''(xe_src_index & 31u)) & 1u)'') st
         | _ \<Rightarrow> assert_always st))"

text \<open>The swizzle appended after the closing parenthesis. The two loops write the
  requested components and then repeat the last requested one up to four lanes;
  \<open>components[component_count - 1]\<close> with a count of zero reads before the array,
  which the disassembler never produces (the count is 1 to 4).\<close>

definition EmitLoadOperand_swizzle :: "InstructionOperand \<Rightarrow> translator \<Rightarrow> translator" where
  "EmitLoadOperand_swizzle op st =
     (if op_storage_source op = kConstantInt \<or> op_storage_source op = kConstantBool
      then EmitSource ''.xxxx'' st
      else if \<not> is_standard_swizzle op then
        EmitSource
          (''.'' @ map GetCharForSwizzle (take (op_component_count op) (vec4_list (op_components op)))
           @ replicate (4 - op_component_count op)
               (GetCharForSwizzle (vec4_list (op_components op) ! (op_component_count op - 1))))
          st
      else st)"

text \<open>The operand up to its closing parenthesis: the dynamic index, the destination
  \<open>xe_src<n>\<close>, the modifiers and the base expression.\<close>

definition EmitLoadOperand_expr :: "nat \<Rightarrow> InstructionOperand \<Rightarrow> 32 word \<Rightarrow> translator \<Rightarrow> translator" where
  "EmitLoadOperand_expr src_index op index_max st =
     (let st1 = EmitLoadOperand_index op index_max st;
          st2 = EmitSourceDepth (''xe_src'' @ u32_str (of_nat src_index) @ '' = '') st1;
          st3 = (if op_is_negated op then EmitSource ''-'' st2 else st2);
          st4 = (if op_is_absolute_value op then EmitSource ''abs'' st3 else st3);
          st5 = EmitSource ''('' st4;
          st6 = EmitLoadOperand_base op st5
      in EmitSource '')'' st6)"

definition EmitLoadOperand :: "nat \<Rightarrow> InstructionOperand \<Rightarrow> translator \<Rightarrow> translator" where
  "EmitLoadOperand src_index op st =
     (case storage_index_max (op_storage_source op) of
        None \<Rightarrow> assert_always st
      | Some index_max \<Rightarrow>
          (let st7 = EmitLoadOperand_expr src_index op index_max st;
               st8 = EmitLoadOperand_swizzle op st7
           in EmitSource '';\<newline>'' st8))"

subsection \<open>Result stores\<close>

text \<open>The switch over the storage target in \<open>EmitStoreResult\<close>: the base of the
  destination and whether it is an array; no value for \<open>kNone\<close> (and \<open>default\<close>),
  where the function returns.\<close>

primrec EmitStoreResult_target :: "InstructionStorageTarget \<Rightarrow> translator \<Rightarrow> (translator \<times> bool) option" where
  "EmitStoreResult_target kRegister st = Some (EmitSourceDepth ''xe_r'' st, True)"
| "EmitStoreResult_target kInterpolant st = Some (EmitSourceDepth ''xe_output.interpolators'' st, True)"
| "EmitStoreResult_target kPosition st = Some (EmitSourceDepth ''xe_output.position'' st, False)"
| "EmitStoreResult_target kPointSize st = Some (EmitSourceDepth ''xe_output.point_size'' st, False)"
| "EmitStoreResult_target kColorTarget st = Some (EmitSourceDepth ''xe_output.colors'' st, True)"
| "EmitStoreResult_target kDepth st =
     Some ((EmitSourceDepth ''xe_output.depth'' st)\<lparr>writes_depth := True\<rparr>, False)"
| "EmitStoreResult_target kNone st = None"

definition EmitStoreResult_index :: "InstructionResult \<Rightarrow> translator \<Rightarrow> translator" where
  "EmitStoreResult_index result st =
     (case res_storage_addressing_mode result of
        kStatic \<Rightarrow> EmitSource (''['' @ u32_str (res_storage_index result) @ '']'') st
      | kAddressAbsolute \<Rightarrow>
          EmitSource (''['' @ u32_str (res_storage_index result) @ '' + xe_a0]'') st
      | kAddressRelative \<Rightarrow>
          EmitSource (''['' @ u32_str (res_storage_index result) @ '' + xe_aL.x]'') st)"

text \<open>One source component of the right-hand side: a literal for the constant
  selectors, else the previous scalar or a lane of the previous vector.\<close>

definition store_component_text :: "bool \<Rightarrow> SwizzleSource \<Rightarrow> string" where
  "store_component_text source_is_scalar c =
     (case c of
        k0 \<Rightarrow> ''0.0''
      | k1 \<Rightarrow> ''1.0''
      | _ \<Rightarrow> if source_is_scalar then ''xe_ps'' else ''xe_pv.'' @ [GetCharForSwizzle c])"

text \<open>The right-hand side for the scalar targets (point size, depth).\<close>

definition EmitStoreResult_scalar :: "InstructionResult \<Rightarrow> bool \<Rightarrow> translator \<Rightarrow> translator" where
  "EmitStoreResult_scalar result source_is_scalar st =
     (let st1 = EmitSource '' = '' st;
          c = vx (res_components result)
      in if c = k0 then EmitSource ''0.0'' st1
         else if c = k1 then EmitSource ''1.0'' st1
         else
           (let st2 = (if res_is_clamped result then EmitSource ''saturate('' st1 else st1);
                st3 = (if source_is_scalar then EmitSource ''xe_ps'' st2
                       else EmitSource (''xe_pv.'' @ [GetCharForSwizzle c]) st2)
            in if res_is_clamped result then EmitSource '')'' st3 else st3))"

text \<open>The components the mask writes, as (index, selector) pairs in lane order: the
  loops \<open>for (i = 0; i < 4; ++i) if (result.write_mask[i])\<close>.\<close>

definition written_components :: "InstructionResult \<Rightarrow> (nat \<times> SwizzleSource) list" where
  "written_components result =
     map (\<lambda>(i, m, c). (i, c))
       (filter (\<lambda>(i, m, c). m)
          (zip [0, 1, 2, 3] (zip (vec4_list (res_write_mask result))
                                 (vec4_list (res_components result)))))"

text \<open>The separated list of the literal-expanded construction.\<close>

fun comma_separated :: "string list \<Rightarrow> string" where
  "comma_separated [] = []"
| "comma_separated [x] = x"
| "comma_separated (x # y # ys) = x @ '', '' @ comma_separated (y # ys)"

text \<open>The masked assignment for the vector targets.\<close>

definition EmitStoreResult_vector :: "InstructionResult \<Rightarrow> bool \<Rightarrow> translator \<Rightarrow> translator" where
  "EmitStoreResult_vector result source_is_scalar st =
     (let written = written_components result;
          has_const_writes = list_ex (\<lambda>(i, c). c = k0 \<or> c = k1) written;
          component_write_count = length written;
          st1 = EmitSource (''.'' @ map (\<lambda>(i, c). GetCharForSwizzle (GetSwizzleFromComponentIndex i)) written) st;
          st2 = EmitSource '' = '' st1;
          st3 = (if res_is_clamped result then EmitSource ''saturate('' st2 else st2);
          st4 =
            (if has_const_writes then
               (let a = (if component_write_count > 1
                         then EmitSource (''float'' @ string_of_nat component_write_count @ ''('') st3
                         else st3);
                    b = EmitSource
                          (comma_separated (map (\<lambda>(i, c). store_component_text source_is_scalar c) written)) a
                in if component_write_count > 1 then EmitSource '')'' b else b)
             else if source_is_scalar then
               (let a = EmitSource ''xe_ps'' st3
                in if component_write_count > 1 then
                     (let b = EmitSource ''.x'' a
                      in if component_write_count > 2 then
                           (let c = EmitSource ''x'' b
                            in if component_write_count > 3 then EmitSource ''x'' c else c)
                         else b)
                   else a)
             else
               EmitSource (''xe_pv.'' @ map (\<lambda>(i, c). GetCharForSwizzle c) written) st3)
      in if res_is_clamped result then EmitSource '')'' st4 else st4)"

definition EmitStoreResult :: "InstructionResult \<Rightarrow> bool \<Rightarrow> translator \<Rightarrow> translator" where
  "EmitStoreResult result source_is_scalar st =
     (let storage_is_scalar =
            (res_storage_target result = kPointSize \<or> res_storage_target result = kDepth)
      in if (if storage_is_scalar then \<not> vx (res_write_mask result)
             else \<not> has_any_writes result)
         then st
         else
           (case EmitStoreResult_target (res_storage_target result) st of
              None \<Rightarrow> st
            | Some (st1, storage_is_array) \<Rightarrow>
                (let st2 = (if storage_is_array then EmitStoreResult_index result st1 else st1);
                     st3 = (if storage_is_scalar
                            then EmitStoreResult_scalar result source_is_scalar st2
                            else EmitStoreResult_vector result source_is_scalar st2)
                 in EmitSource '';\<newline>'' st3)))"

subsection \<open>ALU opcodes\<close>

text \<open>The opcode enumerations of ucode.h, as the two switches name them. The vector
  switch has no case for \<open>kMin\<close>: that opcode emits nothing.\<close>

datatype AluVectorOpcode =
  kAdd | kMul | kMax | kMin | kSeq | kSgt | kSge | kSne | kFrc | kTrunc | kFloor | kMad
  | kCndEq | kCndGe | kCndGt | kDp4 | kDp3 | kDp2Add | kCube | kMax4 | kSetpEqPush
  | kSetpNePush | kSetpGtPush | kSetpGePush | kKillEq | kKillGt | kKillGe | kKillNe
  | kDst | kMaxA

datatype AluScalarOpcode =
  kAdds | kAddsPrev | kMuls | kMulsPrev | kMulsPrev2 | kMaxs | kMins | kSeqs | kSgts
  | kSges | kSnes | kFrcs | kTruncs | kFloors | kExp | kLogc | kLog | kRcpc | kRcpf
  | kRcp | kRsqc | kRsqf | kRsq | kMaxAs | kMaxAsf | kSubs | kSubsPrev | kSetpEq
  | kSetpNe | kSetpGt | kSetpGe | kSetpInv | kSetpPop | kSetpClr | kSetpRstr | kKillsEq
  | kKillsGt | kKillsGe | kKillsNe | kKillsOne | kSqrt | kMulsc0 | kMulsc1 | kAddsc0
  | kAddsc1 | kSubsc0 | kSubsc1 | kSin | kCos | kRetainPrev

text \<open>The switch of \<open>ProcessVectorAluInstruction\<close>.\<close>

primrec EmitVectorOpcode :: "AluVectorOpcode \<Rightarrow> translator \<Rightarrow> translator" where
  "EmitVectorOpcode kAdd st =
     EmitSourceDepth ''xe_pv = xe_src0 + xe_src1;\<newline>'' st"
| "EmitVectorOpcode kMul st =
     EmitSourceDepth ''xe_pv = xe_src0 * xe_src1;\<newline>'' st"
| "EmitVectorOpcode kMax st =
     EmitSourceDepth ''xe_pv = max(xe_src0, xe_src1);\<newline>'' st"
| "EmitVectorOpcode kMin st =
     st"
| "EmitVectorOpcode kSeq st =
     EmitSourceDepth ''xe_pv = float4(xe_src0 == xe_src1);\<newline>'' st"
| "EmitVectorOpcode kSgt st =
     EmitSourceDepth ''xe_pv = float4(xe_src0 > xe_src1);\<newline>'' st"
| "EmitVectorOpcode kSge st =
     EmitSourceDepth ''xe_pv = float4(xe_src0 >= xe_src1);\<newline>'' st"
| "EmitVectorOpcode kSne st =
     EmitSourceDepth ''xe_pv = float4(xe_src0 != xe_src1);\<newline>'' st"
| "EmitVectorOpcode kFrc st =
     EmitSourceDepth ''xe_pv = frac(xe_src0);\<newline>'' st"
| "EmitVectorOpcode kTrunc st =
     EmitSourceDepth ''xe_pv = trunc(xe_src0);\<newline>'' st"
| "EmitVectorOpcode kFloor st =
     EmitSourceDepth ''xe_pv = floor(xe_src0);\<newline>'' st"
| "EmitVectorOpcode kMad st =
     EmitSourceDepth ''xe_pv = xe_src0 * xe_src1 + xe_src2;\<newline>'' st"
| "EmitVectorOpcode kCndEq st =
     EmitSourceDepth ''xe_pv = lerp(xe_src2, xe_src1, float4(xe_src0 == (0.0).xxxx));\<newline>'' st"
| "EmitVectorOpcode kCndGe st =
     EmitSourceDepth ''xe_pv = lerp(xe_src2, xe_src1, float4(xe_src0 >= (0.0).xxxx));\<newline>'' st"
| "EmitVectorOpcode kCndGt st =
     EmitSourceDepth ''xe_pv = lerp(xe_src2, xe_src1, float4(xe_src0 > (0.0).xxxx));\<newline>'' st"
| "EmitVectorOpcode kDp4 st =
     EmitSourceDepth ''xe_pv = dot(xe_src0, xe_src1).xxxx;\<newline>'' st"
| "EmitVectorOpcode kDp3 st =
     EmitSourceDepth ''xe_pv = dot(xe_src0.xyz, xe_src1.xyz).xxxx;\<newline>'' st"
| "EmitVectorOpcode kDp2Add st =
     EmitSourceDepth ''xe_pv = (dot(xe_src0.xy, xe_src1.xy) + xe_src2.x).xxxx;\<newline>'' st"
| "EmitVectorOpcode kCube st =
     (EmitSourceDepth ''xe_pv = XeCubeTo2D(xe_src0.xyz);\<newline>'' st)\<lparr>cube_used := True\<rparr>"
| "EmitVectorOpcode kMax4 st =
     EmitSourceDepth ''xe_pv.xxxx = max(xe_pv.x, xe_pv.y);\<newline>''
       (EmitSourceDepth ''xe_pv.xy = max(xe_src0.xy, xe_src0.zw);\<newline>'' st)"
| "EmitVectorOpcode kSetpEqPush st =
     EmitSourceDepth ''xe_pv = (xe_src0.x == 0.0 && xe_src1.x == 0.0 ? 0.0 : xe_src0.x + 1.0).xxxx;\<newline>''
       (EmitSourceDepth ''xe_p0 = xe_src0.w == 0.0 && xe_src1.w == 0.0;\<newline>''
       (st\<lparr>cf_exec_pred := False\<rparr>))"
| "EmitVectorOpcode kSetpNePush st =
     EmitSourceDepth ''xe_pv = (xe_src0.x == 0.0 && xe_src1.x != 0.0 ? 0.0 : xe_src0.x + 1.0).xxxx;\<newline>''
       (EmitSourceDepth ''xe_p0 = xe_src0.w == 0.0 && xe_src1.w != 0.0;\<newline>''
       (st\<lparr>cf_exec_pred := False\<rparr>))"
| "EmitVectorOpcode kSetpGtPush st =
     EmitSourceDepth ''xe_pv = (xe_src0.x == 0.0 && xe_src1.x > 0.0 ? 0.0 : xe_src0.x + 1.0).xxxx;\<newline>''
       (EmitSourceDepth ''xe_p0 = xe_src0.w == 0.0 && xe_src1.w > 0.0;\<newline>''
       (st\<lparr>cf_exec_pred := False\<rparr>))"
| "EmitVectorOpcode kSetpGePush st =
     EmitSourceDepth ''xe_pv = (xe_src0.x == 0.0 && xe_src1.x >= 0.0 ? 0.0 : xe_src0.x + 1.0).xxxx;\<newline>''
       (EmitSourceDepth ''xe_p0 = xe_src0.w == 0.0 && xe_src1.w >= 0.0;\<newline>''
       (st\<lparr>cf_exec_pred := False\<rparr>))"
| "EmitVectorOpcode kKillEq st =
     EmitSourceDepth ''clip(-xe_pv.x);\<newline>''
       (EmitSourceDepth ''xe_pv.xxxx = float(any(xe_src0 == xe_src1));\<newline>'' st)"
| "EmitVectorOpcode kKillGt st =
     EmitSourceDepth ''clip(-xe_pv.x);\<newline>''
       (EmitSourceDepth ''xe_pv.xxxx = float(any(xe_src0 > xe_src1));\<newline>'' st)"
| "EmitVectorOpcode kKillGe st =
     EmitSourceDepth ''clip(-xe_pv.x);\<newline>''
       (EmitSourceDepth ''xe_pv.xxxx = float(any(xe_src0 >= xe_src1));\<newline>'' st)"
| "EmitVectorOpcode kKillNe st =
     EmitSourceDepth ''clip(-xe_pv.x);\<newline>''
       (EmitSourceDepth ''xe_pv.xxxx = float(any(xe_src0 != xe_src1));\<newline>'' st)"
| "EmitVectorOpcode kDst st =
     EmitSourceDepth ''xe_pv.w = xe_src1.w;\<newline>''
       (EmitSourceDepth ''xe_pv.z = xe_src0.z;\<newline>''
       (EmitSourceDepth ''xe_pv.y = xe_src0.y * xe_src1.y;\<newline>''
       (EmitSourceDepth ''xe_pv.x = 1.0;\<newline>'' st)))"
| "EmitVectorOpcode kMaxA st =
     EmitSourceDepth ''xe_pv = max(xe_src0, xe_src1);\<newline>''
       (EmitSourceDepth ''xe_a0 = clamp(int(round(xe_src0.w)), -256, 255);\<newline>'' st)"

text \<open>The switch of \<open>ProcessScalarAluInstruction\<close>.\<close>

primrec EmitScalarOpcode :: "AluScalarOpcode \<Rightarrow> translator \<Rightarrow> translator" where
  "EmitScalarOpcode kAdds st =
     EmitSourceDepth ''xe_ps = xe_src0.x + xe_src0.y;\<newline>'' st"
| "EmitScalarOpcode kAddsPrev st =
     EmitSourceDepth ''xe_ps += xe_src0.x;\<newline>'' st"
| "EmitScalarOpcode kMuls st =
     EmitSourceDepth ''xe_ps = xe_src0.x * xe_src0.y;\<newline>'' st"
| "EmitScalarOpcode kMulsPrev st =
     EmitSourceDepth ''xe_ps *= xe_src0.x;\<newline>'' st"
| "EmitScalarOpcode kMulsPrev2 st =
     EmitSourceDepth ''    -XE_FLT_MAX : xe_src0.x * xe_ps;\<newline>''
       (EmitSourceDepth ''    || isnan(xe_ps) || xe_src0.y <= 0.0 || isnan(xe_src0.y)) ?\<newline>''
       (EmitSourceDepth ''xe_ps = (xe_ps == -XE_FLT_MAX || (isinf(xe_ps) && xe_ps < 0.0)\<newline>'' st))"
| "EmitScalarOpcode kMaxs st =
     EmitSourceDepth ''xe_ps = max(xe_src0.x, xe_src0.y);\<newline>'' st"
| "EmitScalarOpcode kMins st =
     EmitSourceDepth ''xe_ps = max(xe_src0.x, xe_src0.y);\<newline>'' st"
| "EmitScalarOpcode kSeqs st =
     EmitSourceDepth ''xe_ps = float(xe_src0.x == 0.0);\<newline>'' st"
| "EmitScalarOpcode kSgts st =
     EmitSourceDepth ''xe_ps = float(xe_src0.x > 0.0);\<newline>'' st"
| "EmitScalarOpcode kSges st =
     EmitSourceDepth ''xe_ps = float(xe_src0.x >= 0.0);\<newline>'' st"
| "EmitScalarOpcode kSnes st =
     EmitSourceDepth ''xe_ps = float(xe_src0.x != 0.0);\<newline>'' st"
| "EmitScalarOpcode kFrcs st =
     EmitSourceDepth ''xe_ps = frac(xe_src0.x);\<newline>'' st"
| "EmitScalarOpcode kTruncs st =
     EmitSourceDepth ''xe_ps = trunc(xe_src0.x);\<newline>'' st"
| "EmitScalarOpcode kFloors st =
     EmitSourceDepth ''xe_ps = floor(xe_src0.x);\<newline>'' st"
| "EmitScalarOpcode kExp st =
     EmitSourceDepth ''xe_ps = exp2(xe_src0.x);\<newline>'' st"
| "EmitScalarOpcode kLogc st =
     EmitSourceDepth ''xe_ps = (isinf(xe_ps) && xe_ps < 0.0) ? -XE_FLT_MAX : ps;\<newline>''
       (EmitSourceDepth ''xe_ps = log2(xe_src0.x);\<newline>'' st)"
| "EmitScalarOpcode kLog st =
     EmitSourceDepth ''xe_ps = log2(xe_src0.x);\<newline>'' st"
| "EmitScalarOpcode kRcpc st =
     EmitSourceDepth ''xe_ps = clamp(rcp(xe_src0.x), -XE_FLT_MAX, XE_FLT_MAX);\<newline>'' st"
| "EmitScalarOpcode kRcpf st =
     EmitSourceDepth ''xe_ps *= float(!isinf(xe_ps));\<newline>''
       (EmitSourceDepth ''xe_ps = rcp(xe_src0.x);\<newline>'' st)"
| "EmitScalarOpcode kRcp st =
     EmitSourceDepth ''xe_ps = rcp(xe_src0.x);\<newline>'' st"
| "EmitScalarOpcode kRsqc st =
     EmitSourceDepth ''xe_ps = clamp(rsqrt(xe_src0.x), -XE_FLT_MAX, XE_FLT_MAX);\<newline>'' st"
| "EmitScalarOpcode kRsqf st =
     EmitSourceDepth ''xe_ps *= float(!isinf(xe_ps));\<newline>''
       (EmitSourceDepth ''xe_ps = rsqrt(xe_src0.x);\<newline>'' st)"
| "EmitScalarOpcode kRsq st =
     EmitSourceDepth ''xe_ps = rsqrt(xe_src0.x);\<newline>'' st"
| "EmitScalarOpcode kMaxAs st =
     EmitSourceDepth ''xe_ps = max(xe_src0.x, xe_src0.y);\<newline>''
       (EmitSourceDepth ''xe_a0 = clamp(int(round(xe_src0.x)), -256, 255);\<newline>'' st)"
| "EmitScalarOpcode kMaxAsf st =
     EmitSourceDepth ''xe_ps = max(xe_src0.x, xe_src0.y);\<newline>''
       (EmitSourceDepth ''xe_a0 = clamp(int(floor(xe_src0.x)), -256, 255);\<newline>'' st)"
| "EmitScalarOpcode kSubs st =
     EmitSourceDepth ''xe_ps = xe_src0.x - xe_src0.y;\<newline>'' st"
| "EmitScalarOpcode kSubsPrev st =
     EmitSourceDepth ''xe_ps = xe_src0.x - xe_ps;\<newline>'' st"
| "EmitScalarOpcode kSetpEq st =
     EmitSourceDepth ''xe_ps = float(!xe_p0);\<newline>''
       (EmitSourceDepth ''xe_p0 = xe_src0.x == 0.0;\<newline>''
       (st\<lparr>cf_exec_pred := False\<rparr>))"
| "EmitScalarOpcode kSetpNe st =
     EmitSourceDepth ''xe_ps = float(!xe_p0);\<newline>''
       (EmitSourceDepth ''xe_p0 = xe_src0.x != 0.0;\<newline>''
       (st\<lparr>cf_exec_pred := False\<rparr>))"
| "EmitScalarOpcode kSetpGt st =
     EmitSourceDepth ''xe_ps = float(!xe_p0);\<newline>''
       (EmitSourceDepth ''xe_p0 = xe_src0.x > 0.0;\<newline>''
       (st\<lparr>cf_exec_pred := False\<rparr>))"
| "EmitScalarOpcode kSetpGe st =
     EmitSourceDepth ''xe_ps = float(!xe_p0);\<newline>''
       (EmitSourceDepth ''xe_p0 = xe_src0.x >= 0.0;\<newline>''
       (st\<lparr>cf_exec_pred := False\<rparr>))"
| "EmitScalarOpcode kSetpInv st =
     EmitSourceDepth ''xe_ps = float(!xe_p0) * (xe_src0.x == 0.0 ? 1.0 : xe_src0.x);\<newline>''
       (EmitSourceDepth ''xe_p0 = xe_src0.x == 1.0;\<newline>''
       (st\<lparr>cf_exec_pred := False\<rparr>))"
| "EmitScalarOpcode kSetpPop st =
     EmitSourceDepth ''xe_p0 = xe_ps == 0.0;\<newline>''
       (EmitSourceDepth ''xe_ps = max(xe_src0.x - 1.0, 0.0);\<newline>''
       (st\<lparr>cf_exec_pred := False\<rparr>))"
| "EmitScalarOpcode kSetpClr st =
     EmitSourceDepth ''xe_p0 = XE_FLT_MAX;\<newline>''
       (EmitSourceDepth ''xe_ps = false;\<newline>''
       (st\<lparr>cf_exec_pred := False\<rparr>))"
| "EmitScalarOpcode kSetpRstr st =
     EmitSourceDepth ''xe_ps = src0.x;\<newline>''
       (EmitSourceDepth ''xe_p0 = src0.x == 0.0;\<newline>''
       (st\<lparr>cf_exec_pred := False\<rparr>))"
| "EmitScalarOpcode kKillsEq st =
     EmitSourceDepth ''clip(-xe_ps);\<newline>''
       (EmitSourceDepth ''xe_ps = float(xe_src0.x == 0.0);\<newline>'' st)"
| "EmitScalarOpcode kKillsGt st =
     EmitSourceDepth ''clip(-xe_ps);\<newline>''
       (EmitSourceDepth ''xe_ps = float(xe_src0.x > 0.0);\<newline>'' st)"
| "EmitScalarOpcode kKillsGe st =
     EmitSourceDepth ''clip(-xe_ps);\<newline>''
       (EmitSourceDepth ''xe_ps = float(xe_src0.x >= 0.0);\<newline>'' st)"
| "EmitScalarOpcode kKillsNe st =
     EmitSourceDepth ''clip(-xe_ps);\<newline>''
       (EmitSourceDepth ''xe_ps = float(xe_src0.x != 0.0);\<newline>'' st)"
| "EmitScalarOpcode kKillsOne st =
     EmitSourceDepth ''clip(-xe_ps);\<newline>''
       (EmitSourceDepth ''xe_ps = float(xe_src0.x == 1.0);\<newline>'' st)"
| "EmitScalarOpcode kSqrt st =
     EmitSourceDepth ''xe_ps = float(xe_src0.x);\<newline>'' st"
| "EmitScalarOpcode kMulsc0 st =
     EmitSourceDepth ''xe_ps = xe_src0.x * xe_src1.x;\<newline>'' st"
| "EmitScalarOpcode kMulsc1 st =
     EmitSourceDepth ''xe_ps = xe_src0.x * xe_src1.x;\<newline>'' st"
| "EmitScalarOpcode kAddsc0 st =
     EmitSourceDepth ''xe_ps = xe_src0.x + xe_src1.x;\<newline>'' st"
| "EmitScalarOpcode kAddsc1 st =
     EmitSourceDepth ''xe_ps = xe_src0.x + xe_src1.x;\<newline>'' st"
| "EmitScalarOpcode kSubsc0 st =
     EmitSourceDepth ''xe_ps = xe_src0.x - xe_src1.x;\<newline>'' st"
| "EmitScalarOpcode kSubsc1 st =
     EmitSourceDepth ''xe_ps = xe_src0.x - xe_src1.x;\<newline>'' st"
| "EmitScalarOpcode kSin st =
     EmitSourceDepth ''xe_ps = sin(xe_src0.x);\<newline>'' st"
| "EmitScalarOpcode kCos st =
     EmitSourceDepth ''xe_ps = cos(xe_src0.x);\<newline>'' st"
| "EmitScalarOpcode kRetainPrev st =
     st"

subsection \<open>ALU instructions\<close>

text \<open>\<open>ParsedAluInstruction\<close>. The array \<open>operands\<close> with its \<open>operand_count\<close>
  is the list of the operands in use; \<open>alu_disasm\<close> is the text that
  \<open>Disassemble\<close> appends.\<close>

datatype AluType = kAluNop | kAluVector | kAluScalar

record ParsedAluInstruction =
  alu_type :: AluType
  alu_vector_opcode :: AluVectorOpcode
  alu_scalar_opcode :: AluScalarOpcode
  alu_is_predicated :: bool
  alu_predicate_condition :: bool
  alu_result :: InstructionResult
  alu_operands :: "InstructionOperand list"
  alu_disasm :: string

text \<open>The loop \<open>for (i = 0; i < instr.operand_count; ++i) EmitLoadOperand(i, ...)\<close>.\<close>

fun EmitLoadOperands :: "nat \<Rightarrow> InstructionOperand list \<Rightarrow> translator \<Rightarrow> translator" where
  "EmitLoadOperands i [] st = st"
| "EmitLoadOperands i (op # ops) st = EmitLoadOperands (Suc i) ops (EmitLoadOperand i op st)"

text \<open>The part of \<open>ProcessVectorAluInstruction\<close> between the opening and the
  closing of the predicate guard: the operand loads, the opcode, the result store.\<close>

definition VectorAluBody :: "ParsedAluInstruction \<Rightarrow> translator \<Rightarrow> translator" where
  "VectorAluBody instr st =
     (let st2 = EmitLoadOperands 0 (alu_operands instr) st;
          st3 = EmitVectorOpcode (alu_vector_opcode instr) st2
      in EmitStoreResult (alu_result instr) False st3)"

definition ProcessVectorAluInstruction :: "ParsedAluInstruction \<Rightarrow> translator \<Rightarrow> translator" where
  "ProcessVectorAluInstruction instr st =
     (let (conditional_emitted, st1) =
            BeginPredicatedInstruction (alu_is_predicated instr) (alu_predicate_condition instr) st;
          st4 = VectorAluBody instr st1
      in EndPredicatedInstruction conditional_emitted st4)"

text \<open>The same part of \<open>ProcessScalarAluInstruction\<close>.\<close>

definition ScalarAluBody :: "ParsedAluInstruction \<Rightarrow> translator \<Rightarrow> translator" where
  "ScalarAluBody instr st =
     (let st2 = EmitLoadOperands 0 (alu_operands instr) st;
          st3 = EmitScalarOpcode (alu_scalar_opcode instr) st2
      in EmitStoreResult (alu_result instr) True st3)"

definition ProcessScalarAluInstruction :: "ParsedAluInstruction \<Rightarrow> translator \<Rightarrow> translator" where
  "ProcessScalarAluInstruction instr st =
     (let (conditional_emitted, st1) =
            BeginPredicatedInstruction (alu_is_predicated instr) (alu_predicate_condition instr) st;
          st4 = ScalarAluBody instr st1
      in EndPredicatedInstruction conditional_emitted st4)"

definition ProcessAluInstruction :: "ParsedAluInstruction \<Rightarrow> translator \<Rightarrow> translator" where
  "ProcessAluInstruction instr st =
     (let st1 = EmitSource (alu_disasm instr) (EmitSourceDepth ''// '' st)
      in case alu_type instr of
           kAluNop \<Rightarrow> st1
         | kAluVector \<Rightarrow> ProcessVectorAluInstruction instr st1
         | kAluScalar \<Rightarrow> ProcessScalarAluInstruction instr st1)"

subsection \<open>Fetch instructions\<close>

datatype VertexFormat =
  kUndefined | k_8_8_8_8 | k_2_10_10_10 | k_10_11_11 | k_11_11_10 | k_16_16
  | k_16_16_16_16 | k_16_16_FLOAT | k_16_16_16_16_FLOAT | k_32 | k_32_32 | k_32_32_32_32
  | k_32_FLOAT | k_32_32_FLOAT | k_32_32_32_32_FLOAT | k_32_32_32_FLOAT

record ParsedVertexFetchInstruction =
  vf_is_predicated :: bool
  vf_predicate_condition :: bool
  vf_result :: InstructionResult
  vf_operands :: "InstructionOperand list"
  vf_data_format :: VertexFormat
  vf_offset :: "32 word"
  vf_stride :: "32 word"
  vf_is_signed :: bool
  vf_is_integer :: bool
  vf_disasm :: string

record ParsedTextureFetchInstruction =
  tf_is_predicated :: bool
  tf_predicate_condition :: bool
  tf_result :: InstructionResult
  tf_disasm :: string

text \<open>Consecutive \<open>EmitSourceDepth\<close> calls, one per line.\<close>

fun EmitSourceDepthLines :: "string list \<Rightarrow> translator \<Rightarrow> translator" where
  "EmitSourceDepthLines [] st = st"
| "EmitSourceDepthLines (l # ls) st = EmitSourceDepthLines ls (EmitSourceDepth l st)"

text \<open>The first switch over the data format: \<open>load_swizzle\<close> and
  \<open>load_function_suffix\<close>.\<close>

definition vertex_load_shape :: "VertexFormat \<Rightarrow> string \<times> string" where
  "vertex_load_shape f =
     (if f = k_16_16_16_16 \<or> f = k_16_16_16_16_FLOAT \<or> f = k_32_32 \<or> f = k_32_32_FLOAT
      then (''.xy'', ''2'')
      else if f = k_32_32_32_FLOAT then (''.xyz'', ''3'')
      else if f = k_32_32_32_32 \<or> f = k_32_32_32_32_FLOAT then ([], ''4'')
      else (''.x'', []))"

text \<open>The second switch over the data format: the lines that convert the loaded
  element to the target format. \<open>%X\<close> of the two scale constants is written out.\<close>

definition vertex_convert_lines :: "VertexFormat \<Rightarrow> bool \<Rightarrow> bool \<Rightarrow> string list" where
  "vertex_convert_lines f is_signed is_integer =
     (case f of
        k_8_8_8_8 \<Rightarrow>
          [''xe_vertex_element = (xe_vertex_element.xxxx >>\<newline>'',
           ''    uint4(0u, 8u, 16u, 24u)) & 255u;\<newline>'']
          @ (if is_signed then [''xe_pv = float4(int4(xe_vertex_element << 24u) >> 24);\<newline>'']
             else [''xe_pv = float4(xe_vertex_element);\<newline>''])
          @ (if \<not> is_integer then
               (if is_signed then [''xe_pv = max(xe_pv * (1.0 / 127.0), (-1.0).xxxx);\<newline>'']
                else [''xe_pv *= 1.0 / 255.0;\<newline>''])
             else [])
      | k_2_10_10_10 \<Rightarrow>
          [''xe_vertex_element = (xe_vertex_element.xxxx >>\<newline>'',
           ''    uint4(0u, 10u, 20u, 30u)) & uint4((1023u).xxx, 3u);\<newline>'']
          @ (if is_signed then
               [''xe_pv = float4(int4(xe_vertex_element << uint4((22u).xxx, 3u))\<newline>'',
                ''    >> int4((22).xxx, 3));\<newline>'']
             else [''xe_pv = float4(xe_vertex_element);\<newline>''])
          @ (if \<not> is_integer then
               (if is_signed then
                  [''xe_pv = max(xe_pv * float4((1.0 / 511.0).xxx, 1.0), (-1.0).xxxx);\<newline>'']
                else [''xe_pv *= float4((1.0 / 1023.0).xxx, 1.0 / 3.0);\<newline>''])
             else [])
      | k_10_11_11 \<Rightarrow>
          [''xe_vertex_element.xyz = (xe_vertex_element.xxx >>\<newline>'',
           ''    uint3(0u, 11u, 22u)) & uint3(2047u, 2047u, 1023u);\<newline>'']
          @ (if is_signed then
               [''xe_pv.xyz = float3(int3(xe_vertex_element.xyz <<\<newline>'',
                ''    uint3(21u, 21u, 22u)) >> int3(21, 21, 22));\<newline>'']
             else [''xe_pv.xyz = float3(xe_vertex_element.xyz);\<newline>''])
          @ (if \<not> is_integer then
               (if is_signed then
                  [''xe_pv.xyz = max(xe_pv.xyz *\<newline>'',
                   ''    float3((1.0 / 1023.0).xx, 1.0 / 511.0), (-1.0).xxx);\<newline>'']
                else [''xe_pv.xyz *= float3((1.0 / 2047.0).xx, 1.0 / 1023.0);\<newline>''])
             else [])
          @ [''xe_pv.w = 1.0;\<newline>'']
      | k_11_11_10 \<Rightarrow>
          [''xe_vertex_element.xyz = (xe_vertex_element.xxx >>\<newline>'',
           ''    uint3(0u, 10u, 21u)) & uint3(1023u, 2047u, 2047u);\<newline>'']
          @ (if is_signed then
               [''xe_pv.xyz = float3(int3(xe_vertex_element.xyz <<\<newline>'',
                ''    uint3(22u, 21u, 21u)) >> int3(22, 21, 21));\<newline>'']
             else [''xe_pv.xyz = float3(xe_vertex_element.xyz);\<newline>''])
          @ (if \<not> is_integer then
               (if is_signed then
                  [''xe_pv.xyz = max(xe_pv.xyz *\<newline>'',
                   ''    float3(1.0 / 511.0, (1.0 / 1023.0).xx), (-1.0).xxx);\<newline>'']
                else [''xe_pv.xyz *= float3(1.0 / 1023.0, (1.0 / 2047.0).xx);\<newline>''])
             else [])
          @ [''xe_pv.w = 1.0;\<newline>'']
      | k_16_16 \<Rightarrow>
          [''xe_vertex_element.xy = (xe_vertex_element.xx >>\<newline>'',
           ''    uint2(0u, 16u)) & 65535u;\<newline>'']
          @ (if is_signed then
               [''xe_pv.xy = float2(int2(xe_vertex_element.xy << 16u) >> 16);\<newline>'']
             else [''xe_pv.xy = float2(xe_vertex_element.xy);\<newline>''])
          @ (if \<not> is_integer then
               (if is_signed then [''xe_pv.xy = max(xe_pv.xy * (1.0 / 32767.0), (-1.0).xx);\<newline>'']
                else [''xe_pv.xy *= 1.0 / 65535.0;\<newline>''])
             else [])
          @ [''xe_pv.zw = float2(0.0, 1.0);\<newline>'']
      | k_16_16_16_16 \<Rightarrow>
          [''xe_vertex_element = (xe_vertex_element.xxxx >>\<newline>'',
           ''    uint4(0u, 16u, 0u, 16u)) & 65535u;\<newline>'']
          @ (if is_signed then [''xe_pv = float4(int4(xe_vertex_element << 16u) >> 16);\<newline>'']
             else [''xe_pv = float4(xe_vertex_element);\<newline>''])
          @ (if \<not> is_integer then
               (if is_signed then [''xe_pv = max(xe_pv * (1.0 / 32767.0), (-1.0).xxxx);\<newline>'']
                else [''xe_pv *= 1.0 / 65535.0;\<newline>''])
             else [])
      | k_16_16_FLOAT \<Rightarrow>
          [''xe_vertex_element.xy = (xe_vertex_element.xx >>\<newline>'',
           ''    uint2(0u, 16u)) & 65535u;\<newline>'',
           ''xe_pv.xy = f16tof32(xe_vertex_element.xy);\<newline>'',
           ''xe_pv.zw = float2(0.0, 1.0);\<newline>'']
      | k_16_16_16_16_FLOAT \<Rightarrow>
          [''xe_vertex_element = (xe_vertex_element.xxxx >>\<newline>'',
           ''    uint4(0u, 16u, 0u, 16u)) & 65535u;\<newline>'',
           ''xe_pv = f16tof32(xe_vertex_element);\<newline>'']
      | k_32 \<Rightarrow>
          (if is_signed then [''xe_pv.x = float(int(xe_vertex_element.x));\<newline>'']
           else [''xe_pv.x = float(xe_vertex_element.x);\<newline>''])
          @ (if \<not> is_integer then
               [''xe_pv.x *= asfloat(0x'' @ (if is_signed then ''30000000'' else ''2F800000'')
                @ ''u);\<newline>'']
             else [])
          @ [''xe_pv.yzw = float3(0.0, 0.0, 1.0);\<newline>'']
      | k_32_32 \<Rightarrow>
          (if is_signed then [''xe_pv.xy = float2(int2(xe_vertex_element.xy));\<newline>'']
           else [''xe_pv.xy = float2(xe_vertex_element.xy);\<newline>''])
          @ (if \<not> is_integer then
               [''xe_pv.xy *= asfloat(0x'' @ (if is_signed then ''30000000'' else ''2F800000'')
                @ ''u);\<newline>'']
             else [])
          @ [''xe_pv.zw = float2(0.0, 1.0);\<newline>'']
      | k_32_32_32_32 \<Rightarrow>
          (if is_signed then [''xe_pv = float4(int4(xe_vertex_element));\<newline>'']
           else [''xe_pv = float4(xe_vertex_element);\<newline>''])
          @ (if \<not> is_integer then
               [''xe_pv *= asfloat(0x'' @ (if is_signed then ''30000000'' else ''2F800000'')
                @ ''u);\<newline>'']
             else [])
      | k_32_FLOAT \<Rightarrow>
          [''xe_pv.x = asfloat(xe_vertex_element.x);\<newline>'',
           ''xe_pv.yzw = float3(0.0, 0.0, 1.0);\<newline>'']
      | k_32_32_FLOAT \<Rightarrow>
          [''xe_pv.xy = asfloat(xe_vertex_element.xy);\<newline>'',
           ''xe_pv.zw = float2(0.0, 1.0);\<newline>'']
      | k_32_32_32_32_FLOAT \<Rightarrow> [''xe_pv = asfloat(xe_vertex_element);\<newline>'']
      | k_32_32_32_FLOAT \<Rightarrow>
          [''xe_pv.xyz = asfloat(xe_vertex_element.xyz);\<newline>'',
           ''xe_pv.w = 1.0;\<newline>'']
      | kUndefined \<Rightarrow> [])"

text \<open>The load of the element: the address is the base of the fetch constant plus
  the optional stride and offset terms, in bytes.\<close>

definition EmitVertexLoad :: "ParsedVertexFetchInstruction \<Rightarrow> translator \<Rightarrow> translator" where
  "EmitVertexLoad instr st =
     (let (load_swizzle, load_function_suffix) = vertex_load_shape (vf_data_format instr);
          fetch_index = op_storage_index (vf_operands instr ! 1);
          st1 = EmitSourceDepth (''xe_vertex_element'' @ load_swizzle
                  @ '' = XeByteSwap(xe_shared_memory.Load'' @ load_function_suffix @ ''(\<newline>'') st;
          st2 = EmitSourceDepth (''    ((xe_vertex_fetch['' @ u32_str fetch_index
                  @ ''u].x << 2u) & 0x1FFFFFFCu)'') st1;
          st3 = (if vf_stride instr \<noteq> 0
                 then EmitSource ('' + uint(xe_src0.x) * '' @ u32_str (vf_stride instr * 4) @ ''u'') st2
                 else st2);
          st4 = (if vf_offset instr \<noteq> 0
                 then EmitSource ('' + '' @ u32_str (vf_offset instr * 4) @ ''u'') st3
                 else st3);
          st5 = EmitSource ''),\<newline>'' st4
      in EmitSourceDepth (''    xe_vertex_fetch['' @ u32_str fetch_index @ ''].y);\<newline>'') st5)"

text \<open>The part of \<open>ProcessVertexFetchInstruction\<close> between the opening and the
  closing of the predicate guard: the index load, the element load, the format
  conversion, the result store.\<close>

definition VertexFetchBody :: "ParsedVertexFetchInstruction \<Rightarrow> translator \<Rightarrow> translator" where
  "VertexFetchBody instr st =
     (let st2 = EmitLoadOperand 0 (vf_operands instr ! 0) st;
          st3 = EmitVertexLoad instr st2;
          st4 = EmitSourceDepthLines
                  (vertex_convert_lines (vf_data_format instr) (vf_is_signed instr)
                     (vf_is_integer instr)) st3
      in EmitStoreResult (vf_result instr) False st4)"

text \<open>\<open>ProcessVertexFetchInstruction\<close>. A fetch whose second operand is not a
  vertex-fetch constant reaches \<open>assert_always(); return;\<close> after the disassembly
  comment.\<close>

definition ProcessVertexFetchInstruction :: "ParsedVertexFetchInstruction \<Rightarrow> translator \<Rightarrow> translator" where
  "ProcessVertexFetchInstruction instr st =
     (let st0 = EmitSource (vf_disasm instr) (EmitSourceDepth ''// '' st)
      in if length (vf_operands instr) < 2
            \<or> op_storage_source (vf_operands instr ! 1) \<noteq> kVertexFetchConstant
         then assert_always st0
         else
           (let (conditional_emitted, st1) =
                  BeginPredicatedInstruction (vf_is_predicated instr) (vf_predicate_condition instr) st0;
                st5 = VertexFetchBody instr st1
            in EndPredicatedInstruction conditional_emitted st5))"

text \<open>The guarded part of \<open>ProcessTextureFetchInstruction\<close>: the placeholder
  result and its store.\<close>

definition TextureFetchBody :: "ParsedTextureFetchInstruction \<Rightarrow> translator \<Rightarrow> translator" where
  "TextureFetchBody instr st =
     EmitStoreResult (tf_result instr) False (EmitSourceDepth ''xe_pv = (1.0).xxxx;\<newline>'' st)"

definition ProcessTextureFetchInstruction :: "ParsedTextureFetchInstruction \<Rightarrow> translator \<Rightarrow> translator" where
  "ProcessTextureFetchInstruction instr st =
     (let st0 = EmitSource (tf_disasm instr) (EmitSourceDepth ''// '' st);
          (conditional_emitted, st1) =
            BeginPredicatedInstruction (tf_is_predicated instr) (tf_predicate_condition instr) st0;
          st3 = TextureFetchBody instr st1
      in EndPredicatedInstruction conditional_emitted st3)"

subsection \<open>Control-flow instructions\<close>

datatype ExecType = kExecUnconditional | kExecConditional | kExecPredicated

record ParsedExecInstruction =
  exec_dword_index :: "32 word"
  exec_type :: ExecType
  exec_bool_constant_index :: "32 word"
  exec_condition :: bool
  exec_is_end :: bool
  exec_disasm :: string

record ParsedLoopStartInstruction =
  ls_dword_index :: "32 word"
  ls_loop_constant_index :: "32 word"
  ls_is_repeat :: bool
  ls_loop_skip_address :: "32 word"
  ls_disasm :: string

record ParsedLoopEndInstruction =
  le_dword_index :: "32 word"
  le_is_predicated_break :: bool
  le_predicate_condition :: bool
  le_loop_constant_index :: "32 word"
  le_loop_body_address :: "32 word"
  le_disasm :: string

datatype JumpType = kJumpUnconditional | kJumpConditional | kJumpPredicated

record ParsedJumpInstruction =
  jmp_dword_index :: "32 word"
  jmp_type :: JumpType
  jmp_bool_constant_index :: "32 word"
  jmp_condition :: bool
  jmp_target_address :: "32 word"
  jmp_disasm :: string

definition ProcessLabel :: "32 word \<Rightarrow> translator \<Rightarrow> translator" where
  "ProcessLabel cf_index st =
     (if cf_index \<noteq> 0 then
        (let st1 = (if \<not> cf_wrote_pc st
                    then EmitSourceDepth ''break;''
                           (EmitSourceDepth (''xe_pc = '' @ u32_str cf_index @ ''u;\<newline>'') st)
                    else st)
         in EmitSourceDepth (''case '' @ u32_str cf_index @ ''u:\<newline>'') st1)
      else st)"

definition ProcessControlFlowNopInstruction :: "32 word \<Rightarrow> translator \<Rightarrow> translator" where
  "ProcessControlFlowNopInstruction cf_index st = EmitSourceDepth ''// cnop\<newline>'' st"

definition ProcessControlFlowInstructionBegin :: "32 word \<Rightarrow> translator \<Rightarrow> translator" where
  "ProcessControlFlowInstructionBegin cf_index st = st\<lparr>cf_wrote_pc := False\<rparr>"

definition ProcessControlFlowInstructionEnd :: "32 word \<Rightarrow> translator \<Rightarrow> translator" where
  "ProcessControlFlowInstructionEnd cf_index st =
     (if \<not> cf_wrote_pc st
      then EmitSourceDepth (''// Falling through to L'' @ u32_str (cf_index + 1) @ ''\<newline>'') st
      else st)"

text \<open>The test of a boolean constant, shared by the conditional exec and jump:
  word \<open>index >> 5\<close>, bit \<open>index & 31\<close>.\<close>

definition bool_constant_test :: "32 word \<Rightarrow> bool \<Rightarrow> string" where
  "bool_constant_test bool_constant_index condition =
     ''if ((xe_bool_constants['' @ u32_str (drop_bit 5 bool_constant_index) @ ''] & (1u << ''
     @ u32_str (bool_constant_index AND 31) @ ''u)) ''
     @ [if condition then CHR ''!'' else CHR ''=''] @ ''= 0u) {\<newline>''"

definition ProcessExecInstructionBegin :: "ParsedExecInstruction \<Rightarrow> translator \<Rightarrow> translator" where
  "ProcessExecInstructionBegin instr st =
     (let st1 = EmitSource (exec_disasm instr) (EmitSourceDepth ''// '' st);
          st2 = st1\<lparr>cf_exec_pred := False\<rparr>;
          st3 = (case exec_type instr of
                   kExecUnconditional \<Rightarrow> EmitSourceDepth ''{\<newline>'' st2
                 | kExecConditional \<Rightarrow>
                     EmitSourceDepth
                       (bool_constant_test (exec_bool_constant_index instr) (exec_condition instr)) st2
                 | kExecPredicated \<Rightarrow>
                     EmitSourceDepth (predicate_test (exec_condition instr))
                       (st2\<lparr>cf_exec_pred := True, cf_exec_pred_cond := exec_condition instr\<rparr>))
      in Indent st3)"

definition ProcessExecInstructionEnd :: "ParsedExecInstruction \<Rightarrow> translator \<Rightarrow> translator" where
  "ProcessExecInstructionEnd instr st =
     (let st1 = (if exec_is_end instr
                 then (EmitSourceDepth ''break;\<newline>''
                         (EmitSourceDepth ''xe_pc = 0xFFFFu;\<newline>'' st))\<lparr>cf_wrote_pc := True\<rparr>
                 else st)
      in EmitSourceDepth ''}\<newline>'' (Unindent st1))"

definition ProcessLoopStartInstruction :: "ParsedLoopStartInstruction \<Rightarrow> translator \<Rightarrow> translator" where
  "ProcessLoopStartInstruction instr st =
     (let st1 = EmitSource (ls_disasm instr) (EmitSourceDepth ''// '' st);
          st2 = EmitSourceDepth ''xe_loop_count.yzw = xe_loop_count.xyz;\<newline>'' st1;
          st3 = EmitSourceDepth (''xe_loop_count.x = xe_loop_constants[''
                  @ u32_str (ls_loop_constant_index instr) @ ''] & 0xFFu;\<newline>'') st2;
          st4 = EmitSourceDepth ''xe_aL = xe_aL.xxyz;\<newline>'' st3;
          st5 = (if \<not> ls_is_repeat instr
                 then EmitSourceDepth (''xe_aL.x = int((xe_loop_constants[''
                        @ u32_str (ls_loop_constant_index instr) @ ''] >> 8u) & 0xFFu);\<newline>'') st4
                 else st4);
          st6 = EmitSourceDepth ''if (xe_loop_count.x == 0u) {\<newline>'' st5;
          st7 = EmitSourceDepth (''  xe_pc = '' @ u32_str (ls_loop_skip_address instr)
                  @ ''u;  // Skip loop to L'' @ u32_str (ls_loop_skip_address instr) @ ''\<newline>'') st6;
          st8 = EmitSourceDepth ''} else {\<newline>'' st7;
          st9 = EmitSourceDepth (''  xe_pc = '' @ u32_str (ls_dword_index instr + 1)
                  @ ''u;  // Fallthrough to loop body L'' @ u32_str (ls_dword_index instr + 1)
                  @ ''\<newline>'') st8;
          st10 = EmitSourceDepth ''}\<newline>'' st9;
          st11 = EmitSourceDepth ''break;\<newline>'' st10
      in st11\<lparr>cf_wrote_pc := True\<rparr>)"

definition ProcessLoopEndInstruction :: "ParsedLoopEndInstruction \<Rightarrow> translator \<Rightarrow> translator" where
  "ProcessLoopEndInstruction instr st =
     (let st1 = EmitSource (le_disasm instr) (EmitSourceDepth ''// '' st);
          st2 = EmitSourceDepth ''if (--xe_loop_count.x == 0u'' st1;
          st3 = (if le_is_predicated_break instr
                 then EmitSource ('' || '' @ [if le_predicate_condition instr then CHR '' '' else CHR ''!'']
                        @ ''xe_p0) {\<newline>'') st2
                 else EmitSource '') {\<newline>'' st2);
          st4 = Indent st3;
          st5 = EmitSourceDepth ''xe_loop_count.xyz = xe_loop_count.yzw;\<newline>'' st4;
          st6 = EmitSourceDepth ''xe_loop_count.w = 0u;\<newline>'' st5;
          st7 = EmitSourceDepth ''xe_aL.xyz = xe_aL.yzw;\<newline>'' st6;
          st8 = EmitSourceDepth ''xe_aL.w = 0;\<newline>'' st7;
          st9 = EmitSourceDepth (''xe_pc = '' @ u32_str (le_dword_index instr + 1)
                  @ ''u;  // Exit loop to L'' @ u32_str (le_dword_index instr + 1) @ ''\<newline>'') st8;
          st10 = Unindent st9;
          st11 = EmitSourceDepth ''} else {\<newline>'' st10;
          st12 = Indent st11;
          st13 = EmitSourceDepth (''xe_aL.x += int(xe_loop_constants[''
                   @ u32_str (le_loop_constant_index instr) @ ''] << 8u) >> 24;\<newline>'') st12;
          st14 = EmitSourceDepth (''xe_pc = '' @ u32_str (le_loop_body_address instr)
                   @ ''u;  // Loop back to body L'' @ u32_str (le_loop_body_address instr)
                   @ ''\<newline>'') st13;
          st15 = Unindent st14;
          st16 = EmitSourceDepth ''}\<newline>'' st15;
          st17 = EmitSourceDepth ''break;\<newline>'' st16
      in st17\<lparr>cf_wrote_pc := True\<rparr>)"

definition ProcessCallInstruction :: "string \<Rightarrow> translator \<Rightarrow> translator" where
  "ProcessCallInstruction disasm st =
     EmitUnimplementedTranslationError (EmitSource disasm (EmitSourceDepth ''// '' st))"

definition ProcessReturnInstruction :: "string \<Rightarrow> translator \<Rightarrow> translator" where
  "ProcessReturnInstruction disasm st =
     EmitUnimplementedTranslationError (EmitSource disasm (EmitSourceDepth ''// '' st))"

definition ProcessJumpInstruction :: "ParsedJumpInstruction \<Rightarrow> translator \<Rightarrow> translator" where
  "ProcessJumpInstruction instr st =
     (let st1 = EmitSource (jmp_disasm instr) (EmitSourceDepth ''// '' st);
          (needs_fallthrough, st2) =
            (case jmp_type instr of
               kJumpUnconditional \<Rightarrow> (False, EmitSourceDepth ''{\<newline>'' st1)
             | kJumpConditional \<Rightarrow>
                 (True, EmitSourceDepth
                          (bool_constant_test (jmp_bool_constant_index instr) (jmp_condition instr)) st1)
             | kJumpPredicated \<Rightarrow>
                 (True, EmitSourceDepth (predicate_test (jmp_condition instr)) st1));
          st3 = Indent st2;
          st4 = EmitSourceDepth (''xe_pc = '' @ u32_str (jmp_target_address instr) @ ''u;  // L''
                  @ u32_str (jmp_target_address instr) @ ''\<newline>'') st3;
          st5 = EmitSourceDepth ''break;\<newline>'' st4;
          st6 = Unindent st5;
          st7 = (if needs_fallthrough
                 then (let next_address = jmp_dword_index instr + 1
                       in EmitSourceDepth (''  xe_pc = '' @ u32_str next_address
                            @ ''u;  // Fallthrough to L'' @ u32_str next_address @ ''\<newline>'')
                            (EmitSourceDepth ''} else {\<newline>'' st6))
                 else st6)
      in EmitSourceDepth ''}\<newline>'' st7)"

definition ProcessAllocInstruction :: "string \<Rightarrow> translator \<Rightarrow> translator" where
  "ProcessAllocInstruction disasm st = EmitSource disasm (EmitSourceDepth ''// '' st)"

subsection \<open>The instruction stream\<close>

datatype exec_instr =
  VertexFetch ParsedVertexFetchInstruction
  | TextureFetch ParsedTextureFetchInstruction
  | Alu ParsedAluInstruction

datatype cf_instr =
  CfNop
  | CfExec ParsedExecInstruction "exec_instr list"
  | CfLoopStart ParsedLoopStartInstruction
  | CfLoopEnd ParsedLoopEndInstruction
  | CfCall string
  | CfReturn string
  | CfJump ParsedJumpInstruction
  | CfAlloc string

text \<open>Modelled from the spec: the base class hands every instruction of an exec
  block to the hook of its kind, in the order of the block.\<close>

primrec ProcessExecBodyInstruction :: "exec_instr \<Rightarrow> translator \<Rightarrow> translator" where
  "ProcessExecBodyInstruction (VertexFetch i) st = ProcessVertexFetchInstruction i st"
| "ProcessExecBodyInstruction (TextureFetch i) st = ProcessTextureFetchInstruction i st"
| "ProcessExecBodyInstruction (Alu i) st = ProcessAluInstruction i st"

fun ProcessExecBody :: "exec_instr list \<Rightarrow> translator \<Rightarrow> translator" where
  "ProcessExecBody [] st = st"
| "ProcessExecBody (i # is) st = ProcessExecBody is (ProcessExecBodyInstruction i st)"

text \<open>Modelled from the spec: the loop that streams the instructions through the
  hooks belongs to the base class \<open>ShaderTranslator\<close>, which is not among the
  sources. Instructions are processed strictly in the order supplied; an exec block
  is its begin hook, its ALU and fetch instructions, and its end hook; every other
  control-flow instruction is the one hook of its kind.\<close>

primrec TranslateControlFlowInstruction :: "32 word \<Rightarrow> cf_instr \<Rightarrow> translator \<Rightarrow> translator" where
  "TranslateControlFlowInstruction cf_index CfNop st = ProcessControlFlowNopInstruction cf_index st"
| "TranslateControlFlowInstruction cf_index (CfExec instr body) st =
     ProcessExecInstructionEnd instr (ProcessExecBody body (ProcessExecInstructionBegin instr st))"
| "TranslateControlFlowInstruction cf_index (CfLoopStart instr) st = ProcessLoopStartInstruction instr st"
| "TranslateControlFlowInstruction cf_index (CfLoopEnd instr) st = ProcessLoopEndInstruction instr st"
| "TranslateControlFlowInstruction cf_index (CfCall disasm) st = ProcessCallInstruction disasm st"
| "TranslateControlFlowInstruction cf_index (CfReturn disasm) st = ProcessReturnInstruction disasm st"
| "TranslateControlFlowInstruction cf_index (CfJump instr) st = ProcessJumpInstruction instr st"
| "TranslateControlFlowInstruction cf_index (CfAlloc disasm) st = ProcessAllocInstruction disasm st"

text \<open>Modelled from the spec: one control-flow instruction at address \<open>cf_index\<close>
  between its begin and end hooks (the base class calls them around every
  control-flow instruction).\<close>

definition TranslateControlFlow :: "32 word \<Rightarrow> cf_instr \<Rightarrow> translator \<Rightarrow> translator" where
  "TranslateControlFlow cf_index instr st =
     ProcessControlFlowInstructionEnd cf_index
       (TranslateControlFlowInstruction cf_index instr
          (ProcessControlFlowInstructionBegin cf_index st))"

subsection \<open>Binding allocator\<close>

text \<open>The linear scan of both allocators: the first position that holds the key.\<close>

fun find_binding :: "'a \<Rightarrow> 'a list \<Rightarrow> nat option" where
  "find_binding k [] = None"
| "find_binding k (x # xs) = (if x = k then Some 0 else map_option Suc (find_binding k xs))"

text \<open>\<open>AddSRVBinding\<close> returns the index (a \<open>uint32_t\<close>; the table stays far below
  \<open>2^32\<close> entries) and the translator with the table it leaves.\<close>

definition AddSRVBinding :: "SRVType \<Rightarrow> 32 word \<Rightarrow> translator \<Rightarrow> nat \<times> translator" where
  "AddSRVBinding type fetch_constant st =
     (case find_binding (type, fetch_constant) (srv_bindings st) of
        Some i \<Rightarrow> (i, st)
      | None \<Rightarrow>
          (length (srv_bindings st),
           st\<lparr>srv_bindings := srv_bindings st @ [(type, fetch_constant)]\<rparr>))"

text \<open>\<open>AddSampler\<close> scans the first \<open>sampler_count\<close> entries of the fixed array
  \<open>sampler_fetch_constants\<close> and stores a new key at \<open>sampler_count\<close>. The source
  does not check the capacity; a store past the end of the array has no defined
  result and is \<open>None\<close> here.\<close>

definition AddSampler :: "32 word \<Rightarrow> translator \<Rightarrow> (nat \<times> translator) option" where
  "AddSampler fetch_constant st =
     (case find_binding fetch_constant (take (sampler_count st) (sampler_fetch_constants st)) of
        Some i \<Rightarrow> Some (i, st)
      | None \<Rightarrow>
          if sampler_count st < length (sampler_fetch_constants st)
          then Some (sampler_count st,
                     st\<lparr>sampler_fetch_constants :=
                          (sampler_fetch_constants st)[sampler_count st := fetch_constant],
                        sampler_count := sampler_count st + 1\<rparr>)
          else None)"

text \<open>A run of \<open>AddSRVBinding\<close> calls within one translation: the indices returned,
  in call order, and the final translator.\<close>

fun AddSRVBindings :: "(SRVType \<times> 32 word) list \<Rightarrow> translator \<Rightarrow> nat list \<times> translator" where
  "AddSRVBindings [] st = ([], st)"
| "AddSRVBindings ((type, fetch_constant) # ks) st =
     (let (i, st1) = AddSRVBinding type fetch_constant st;
          (is, st2) = AddSRVBindings ks st1
      in (i # is, st2))"

fun AddSamplers :: "32 word list \<Rightarrow> translator \<Rightarrow> (nat list \<times> translator) option" where
  "AddSamplers [] st = Some ([], st)"
| "AddSamplers (k # ks) st =
     (case AddSampler k st of
        None \<Rightarrow> None
      | Some (i, st1) \<Rightarrow>
          (case AddSamplers ks st1 of
             None \<Rightarrow> None
           | Some (is, st2) \<Rightarrow> Some (i # is, st2)))"

text \<open>The keys of a call sequence in first-seen order, without repetitions.\<close>

definition first_seen :: "'a list \<Rightarrow> 'a list" where
  "first_seen ks = rev (remdups (rev ks))"

subsection \<open>Start of a translation\<close>

text \<open>\<open>Reset\<close> also calls \<open>ShaderTranslator::Reset\<close> of the base class, which is
  not among the sources and whose fields are not modelled (it starts a translation
  with no recorded error).\<close>

definition Reset :: "translator \<Rightarrow> translator" where
  "Reset st =
     st\<lparr>errors := [], source_inner := [], depth := 0, depth_prefix := [],
        cf_wrote_pc := False, cf_exec_pred := False, cf_exec_pred_cond := False,
        writes_depth := False, srv_bindings := [], sampler_count := 0, cube_used := False\<rparr>"

definition StartTranslation :: "translator \<Rightarrow> translator" where
  "StartTranslation st = EmitSourceDepth ''case 0u:\<newline>'' (Indent (Indent (Indent st)))"

subsection \<open>Properties of translator states\<close>

text \<open>The indentation string holds \<open>depth\<close> characters: true after \<open>Reset\<close> and
  kept by \<open>Indent\<close> and \<open>Unindent\<close>.\<close>

definition indentation_ok :: "translator \<Rightarrow> bool" where
  "indentation_ok st \<longleftrightarrow> length (depth_prefix st) = depth st"

text \<open>\<open>st'\<close> comes from \<open>st\<close> by appending text only: the buffer has grown at its
  end, the indentation, the wrote-pc flag and the recorded errors are the same, and
  the exec-level predicate flag has not been turned on.\<close>

definition extends :: "translator \<Rightarrow> translator \<Rightarrow> bool" where
  "extends st st' \<longleftrightarrow>
     source_inner st' = source_inner st @ emitted st st' \<and> depth st' = depth st
     \<and> depth_prefix st' = depth_prefix st \<and> cf_wrote_pc st' = cf_wrote_pc st
     \<and> errors st' = errors st
     \<and> (cf_exec_pred st' \<longrightarrow> cf_exec_pred st)
     \<and> cf_exec_pred_cond st' = cf_exec_pred_cond st"

text \<open>The control-flow instructions whose hook sets \<open>cf_wrote_pc\<close>: loop start, loop
  end, and the exec block flagged as the end of the program.\<close>

primrec sets_cf_wrote_pc :: "cf_instr \<Rightarrow> bool" where
  "sets_cf_wrote_pc CfNop = False"
| "sets_cf_wrote_pc (CfExec instr body) = exec_is_end instr"
| "sets_cf_wrote_pc (CfLoopStart instr) = True"
| "sets_cf_wrote_pc (CfLoopEnd instr) = True"
| "sets_cf_wrote_pc (CfCall disasm) = False"
| "sets_cf_wrote_pc (CfReturn disasm) = False"
| "sets_cf_wrote_pc (CfJump instr) = False"
| "sets_cf_wrote_pc (CfAlloc disasm) = False"

text \<open>The fallthrough that \<open>ProcessLabel\<close> synthesizes before a case opens.\<close>

definition fallthrough_assignment :: "translator \<Rightarrow> 32 word \<Rightarrow> string" where
  "fallthrough_assignment st address =
     depth_prefix st @ ''xe_pc = '' @ u32_str address @ ''u;\<newline>'' @ depth_prefix st @ ''break;''"

definition case_label :: "translator \<Rightarrow> 32 word \<Rightarrow> string" where
  "case_label st address = depth_prefix st @ ''case '' @ u32_str address @ ''u:\<newline>''"

text \<open>The predicate-setting opcodes.\<close>

definition is_setp_vector :: "AluVectorOpcode \<Rightarrow> bool" where
  "is_setp_vector opc \<longleftrightarrow> opc = kSetpEqPush \<or> opc = kSetpNePush \<or> opc = kSetpGtPush \<or> opc = kSetpGePush"

definition is_setp_scalar :: "AluScalarOpcode \<Rightarrow> bool" where
  "is_setp_scalar opc \<longleftrightarrow>
     opc = kSetpEq \<or> opc = kSetpNe \<or> opc = kSetpGt \<or> opc = kSetpGe \<or> opc = kSetpInv
     \<or> opc = kSetpPop \<or> opc = kSetpClr \<or> opc = kSetpRstr"

definition sets_predicate :: "ParsedAluInstruction \<Rightarrow> bool" where
  "sets_predicate instr \<longleftrightarrow>
     (alu_type instr = kAluVector \<and> is_setp_vector (alu_vector_opcode instr))
     \<or> (alu_type instr = kAluScalar \<and> is_setp_scalar (alu_scalar_opcode instr))"

text \<open>The exec-level fast path covers a predicated instruction of polarity
  \<open>condition\<close>: the enclosing exec block is predicate-guarded with that polarity and
  no predicate-setting opcode has run in it since.\<close>

definition fast_path_covers :: "translator \<Rightarrow> bool \<Rightarrow> bool" where
  "fast_path_covers st condition \<longleftrightarrow> cf_exec_pred st \<and> cf_exec_pred_cond st = condition"

text \<open>The instructions that are translated under a guard: vector and scalar ALU
  instructions, texture fetches, and vertex fetches whose second operand names a
  vertex-fetch constant. With them, whether the instruction is predicated, its
  polarity, its disassembly, and the instruction with the predication removed.\<close>

definition vertex_fetch_well_formed :: "ParsedVertexFetchInstruction \<Rightarrow> bool" where
  "vertex_fetch_well_formed instr \<longleftrightarrow>
     \<not> (length (vf_operands instr) < 2
        \<or> op_storage_source (vf_operands instr ! 1) \<noteq> kVertexFetchConstant)"

primrec is_translated :: "exec_instr \<Rightarrow> bool" where
  "is_translated (VertexFetch i) = vertex_fetch_well_formed i"
| "is_translated (TextureFetch i) = True"
| "is_translated (Alu i) = (alu_type i \<noteq> kAluNop)"

primrec instr_is_predicated :: "exec_instr \<Rightarrow> bool" where
  "instr_is_predicated (VertexFetch i) = vf_is_predicated i"
| "instr_is_predicated (TextureFetch i) = tf_is_predicated i"
| "instr_is_predicated (Alu i) = alu_is_predicated i"

primrec instr_predicate_condition :: "exec_instr \<Rightarrow> bool" where
  "instr_predicate_condition (VertexFetch i) = vf_predicate_condition i"
| "instr_predicate_condition (TextureFetch i) = tf_predicate_condition i"
| "instr_predicate_condition (Alu i) = alu_predicate_condition i"

primrec instr_disasm :: "exec_instr \<Rightarrow> string" where
  "instr_disasm (VertexFetch i) = vf_disasm i"
| "instr_disasm (TextureFetch i) = tf_disasm i"
| "instr_disasm (Alu i) = alu_disasm i"

primrec unpredicated :: "exec_instr \<Rightarrow> exec_instr" where
  "unpredicated (VertexFetch i) = VertexFetch (i\<lparr>vf_is_predicated := False\<rparr>)"
| "unpredicated (TextureFetch i) = TextureFetch (i\<lparr>tf_is_predicated := False\<rparr>)"
| "unpredicated (Alu i) = Alu (i\<lparr>alu_is_predicated := False\<rparr>)"

text \<open>The guarded part of an instruction: what it emits between the opening and
  the closing of its guard.\<close>

primrec guarded_part :: "exec_instr \<Rightarrow> translator \<Rightarrow> translator" where
  "guarded_part (VertexFetch i) st = VertexFetchBody i st"
| "guarded_part (TextureFetch i) st = TextureFetchBody i st"
| "guarded_part (Alu i) st =
     (case alu_type i of
        kAluNop \<Rightarrow> st
      | kAluVector \<Rightarrow> VectorAluBody i st
      | kAluScalar \<Rightarrow> ScalarAluBody i st)"

text \<open>The comment every instruction starts with: \<open>// \<close> and its disassembly.\<close>

definition disasm_comment :: "translator \<Rightarrow> string \<Rightarrow> string" where
  "disasm_comment st disasm = depth_prefix st @ ''// '' @ disasm"

primrec cf_comment :: "cf_instr \<Rightarrow> string" where
  "cf_comment CfNop = ''cnop\<newline>''"
| "cf_comment (CfExec instr body) = exec_disasm instr"
| "cf_comment (CfLoopStart instr) = ls_disasm instr"
| "cf_comment (CfLoopEnd instr) = le_disasm instr"
| "cf_comment (CfCall disasm) = disasm"
| "cf_comment (CfReturn disasm) = disasm"
| "cf_comment (CfJump instr) = jmp_disasm instr"
| "cf_comment (CfAlloc disasm) = disasm"

section \<open>What the emitted loop code computes\<close>

text \<open>
  The variables of the emitted shader that the loop instructions use. The module
  assembler declares them as \<open>int4 xe_aL\<close> (the loop index stack, \<open>.x\<close> the active
  loop), \<open>uint4 xe_loop_count\<close> (the remaining counts), \<open>bool xe_p0\<close> and
  \<open>uint xe_pc\<close>, all 32 bits wide. \<open>xe_loop_constants\<close> is the constant table the
  shader reads, given here as a function of the index.
\<close>

record shader_vars =
  xe_loop_count :: "32 word vec4"
  xe_aL :: "32 word vec4"
  xe_p0 :: bool
  xe_pc :: "32 word"

type_synonym loop_constants = "32 word \<Rightarrow> 32 word"

text \<open>The statements that \<open>ProcessLoopStartInstruction\<close> emits:
  \<^verbatim>\<open>xe_loop_count.yzw = xe_loop_count.xyz;\<close>
  \<^verbatim>\<open>xe_loop_count.x = xe_loop_constants[i] & 0xFFu;\<close>
  \<^verbatim>\<open>xe_aL = xe_aL.xxyz;\<close>
  \<^verbatim>\<open>xe_aL.x = int((xe_loop_constants[i] >> 8u) & 0xFFu);\<close> (unless repeating)
  \<^verbatim>\<open>if (xe_loop_count.x == 0u) { xe_pc = skip; } else { xe_pc = dword_index + 1; } break;\<close>\<close>

definition loop_start_code :: "loop_constants \<Rightarrow> ParsedLoopStartInstruction \<Rightarrow> shader_vars \<Rightarrow> shader_vars" where
  "loop_start_code lc instr v =
     (let c = xe_loop_count v;
          count1 = Vec4 (vx c) (vx c) (vy c) (vz c);
          count2 = Vec4 (lc (ls_loop_constant_index instr) AND 0xFF) (vy count1) (vz count1) (vw count1);
          a = xe_aL v;
          aL1 = Vec4 (vx a) (vx a) (vy a) (vz a);
          aL2 = (if \<not> ls_is_repeat instr
                 then Vec4 (drop_bit 8 (lc (ls_loop_constant_index instr)) AND 0xFF)
                        (vy aL1) (vz aL1) (vw aL1)
                 else aL1)
      in v\<lparr>xe_loop_count := count2, xe_aL := aL2,
           xe_pc := (if vx count2 = 0 then ls_loop_skip_address instr
                     else ls_dword_index instr + 1)\<rparr>)"

text \<open>The statements that \<open>ProcessLoopEndInstruction\<close> emits:
  \<^verbatim>\<open>if (--xe_loop_count.x == 0u || [!]xe_p0) {\<close> (the predicate only for a predicated break)
  \<^verbatim>\<open>  xe_loop_count.xyz = xe_loop_count.yzw; xe_loop_count.w = 0u;\<close>
  \<^verbatim>\<open>  xe_aL.xyz = xe_aL.yzw; xe_aL.w = 0; xe_pc = dword_index + 1;\<close>
  \<^verbatim>\<open>} else {\<close>
  \<^verbatim>\<open>  xe_aL.x += int(xe_loop_constants[i] << 8u) >> 24; xe_pc = loop_body_address;\<close>
  \<^verbatim>\<open>} break;\<close>\<close>

definition loop_end_code :: "loop_constants \<Rightarrow> ParsedLoopEndInstruction \<Rightarrow> shader_vars \<Rightarrow> shader_vars" where
  "loop_end_code lc instr v =
     (let c = xe_loop_count v;
          count1 = Vec4 (vx c - 1) (vy c) (vz c) (vw c);
          a = xe_aL v
      in if vx count1 = 0 \<or> (le_is_predicated_break instr \<and> xe_p0 v = le_predicate_condition instr)
         then v\<lparr>xe_loop_count := Vec4 (vy count1) (vz count1) (vw count1) 0,
                xe_aL := Vec4 (vy a) (vz a) (vw a) 0,
                xe_pc := le_dword_index instr + 1\<rparr>
         else v\<lparr>xe_loop_count := count1,
                xe_aL := Vec4 (vx a + signed_drop_bit 24 (push_bit 8 (lc (le_loop_constant_index instr))))
                           (vy a) (vz a) (vw a),
                xe_pc := le_loop_body_address instr\<rparr>)"

text \<open>One turn of the dispatch loop \<^verbatim>\<open>do { switch (xe_pc) { ... } } while (...)\<close> over a
  program of loop instructions: the case of the current counter runs, and its
  \<open>break\<close> leaves the switch with the counter it assigned. \<open>program\<close> gives the
  instruction translated at an address.\<close>

definition dispatch_step :: "loop_constants \<Rightarrow> (32 word \<Rightarrow> cf_instr option) \<Rightarrow> shader_vars \<Rightarrow> shader_vars" where
  "dispatch_step lc program v =
     (case program (xe_pc v) of
        Some (CfLoopStart instr) \<Rightarrow> loop_start_code lc instr v
      | Some (CfLoopEnd instr) \<Rightarrow> loop_end_code lc instr v
      | _ \<Rightarrow> v)"

text \<open>\<open>n\<close> turns of the dispatch loop.\<close>

primrec dispatch_run :: "loop_constants \<Rightarrow> (32 word \<Rightarrow> cf_instr option) \<Rightarrow> nat \<Rightarrow> shader_vars \<Rightarrow> shader_vars" where
  "dispatch_run lc program 0 v = v"
| "dispatch_run lc program (Suc n) v = dispatch_run lc program n (dispatch_step lc program v)"

text \<open>The addresses \<open>first\<close> up to \<open>after\<close> hold a nest of loops, outermost first:
  each loop-start skips to the address after its loop-end, and each loop-end
  branches back to the address after its loop-start.\<close>

fun loop_nest_at ::
  "(32 word \<Rightarrow> cf_instr option) \<Rightarrow> 32 word
   \<Rightarrow> (ParsedLoopStartInstruction \<times> ParsedLoopEndInstruction) list \<Rightarrow> 32 word \<Rightarrow> bool" where
  "loop_nest_at program first [] after = (first = after)"
| "loop_nest_at program first ((s, e) # inner) after =
     (program first = Some (CfLoopStart s) \<and> ls_dword_index s = first
      \<and> ls_loop_skip_address s = after
      \<and> program (after - 1) = Some (CfLoopEnd e) \<and> le_dword_index e = after - 1
      \<and> le_loop_body_address e = first + 1
      \<and> loop_nest_at program (first + 1) inner (after - 1))"

text \<open>Every loop of the nest is entered: the count it loads is not zero.\<close>

definition loops_entered ::
  "loop_constants \<Rightarrow> (ParsedLoopStartInstruction \<times> ParsedLoopEndInstruction) list \<Rightarrow> bool" where
  "loops_entered lc nest = list_all (\<lambda>(s, e). lc (ls_loop_constant_index s) AND 0xFF \<noteq> 0) nest"

text \<open>The loop-end leaves the loop: the decremented count is zero, or the break
  predicate matches.\<close>

definition loop_end_exits :: "ParsedLoopEndInstruction \<Rightarrow> shader_vars \<Rightarrow> bool" where
  "loop_end_exits e v \<longleftrightarrow>
     vx (xe_loop_count v) - 1 = 0
     \<or> (le_is_predicated_break e \<and> xe_p0 v = le_predicate_condition e)"

text \<open>A stack after a pop: the entries move up and the last one is cleared.\<close>

definition pop_stack :: "32 word vec4 \<Rightarrow> 32 word vec4" where
  "pop_stack s = Vec4 (vy s) (vz s) (vw s) 0"

text \<open>A stack with its last \<open>n\<close> entries cleared.\<close>

definition zero_last :: "nat \<Rightarrow> 32 word vec4 \<Rightarrow> 32 word vec4" where
  "zero_last n s =
     Vec4 (if 4 \<le> n then 0 else vx s) (if 3 \<le> n then 0 else vy s)
          (if 2 \<le> n then 0 else vz s) (if 1 \<le> n then 0 else vw s)"

section \<open>What the emitted vertex decoding computes\<close>

text \<open>
  The statements emitted for a signed, normalized \<open>8_8_8_8\<close> fetch:
  \<^verbatim>\<open>xe_vertex_element = (xe_vertex_element.xxxx >> uint4(0u, 8u, 16u, 24u)) & 255u;\<close>
  \<^verbatim>\<open>xe_pv = float4(int4(xe_vertex_element << 24u) >> 24);\<close>
  \<^verbatim>\<open>xe_pv = max(xe_pv * (1.0 / 127.0), (-1.0).xxxx);\<close>
  The integers are 32-bit words. The floating-point values are reals, and the
  rounding of the target's arithmetic is the parameter \<open>rnd\<close>, applied to the
  constant \<open>1.0 / 127.0\<close> and to the product; the conversion of an integer between
  -128 and 127 is exact.
\<close>

definition unpack_8_8_8_8 :: "32 word \<Rightarrow> 32 word vec4" where
  "unpack_8_8_8_8 e =
     Vec4 (drop_bit 0 e AND 255) (drop_bit 8 e AND 255) (drop_bit 16 e AND 255)
          (drop_bit 24 e AND 255)"

definition sign_extend_8 :: "32 word \<Rightarrow> int" where
  "sign_extend_8 x = sint (signed_drop_bit 24 (push_bit 24 x))"

definition snorm8_lane :: "(real \<Rightarrow> real) \<Rightarrow> 32 word \<Rightarrow> real" where
  "snorm8_lane rnd x = max (rnd (real_of_int (sign_extend_8 x) * rnd (1 / 127))) (- 1)"

definition decode_snorm_8_8_8_8 :: "(real \<Rightarrow> real) \<Rightarrow> 32 word \<Rightarrow> real vec4" where
  "decode_snorm_8_8_8_8 rnd e =
     (let u = unpack_8_8_8_8 e
      in Vec4 (snorm8_lane rnd (vx u)) (snorm8_lane rnd (vy u)) (snorm8_lane rnd (vz u))
              (snorm8_lane rnd (vw u)))"

text \<open>The rounding is monotone and represents \<open>-1\<close> and \<open>2^-7\<close> exactly, as every
  binary floating-point format with round-to-nearest does.\<close>

definition rounding_ok :: "(real \<Rightarrow> real) \<Rightarrow> bool" where
  "rounding_ok rnd \<longleftrightarrow> mono rnd \<and> rnd (- 1) = - 1 \<and> rnd (1 / 128) = 1 / 128"

section \<open>Example inputs\<close>

text \<open>A translator after \<open>Reset\<close>, with an array of eight sampler slots, and the
  same translator at the indentation of the dispatch cases.\<close>

definition fresh_translator :: translator where
  "fresh_translator =
     \<lparr>source_inner = [], depth = 0, depth_prefix = [], cf_wrote_pc = False,
      cf_exec_pred = False, cf_exec_pred_cond = False, writes_depth = False,
      srv_bindings = [], sampler_fetch_constants = [0, 0, 0, 0, 0, 0, 0, 0], sampler_count = 0,
      cube_used = False, errors = [], asserts_hit = 0\<rparr>"

definition started_translator :: translator where
  "started_translator = StartTranslation fresh_translator"

text \<open>A result that writes \<open>r3.xyzw\<close> from the previous vector, saturated.\<close>

definition example_result :: InstructionResult where
  "example_result =
     \<lparr>res_storage_target = kRegister, res_storage_index = 3,
      res_storage_addressing_mode = kStatic, res_is_clamped = True,
      res_write_mask = Vec4 True True True True, res_components = Vec4 kX kY kZ kW\<rparr>"

text \<open>A register operand \<open>r1\<close> with the standard swizzle.\<close>

definition example_operand :: InstructionOperand where
  "example_operand =
     \<lparr>op_storage_source = kSrcRegister, op_storage_index = 1,
      op_storage_addressing_mode = kStatic, op_is_negated = False,
      op_is_absolute_value = False, op_component_count = 4,
      op_components = Vec4 kX kY kZ kW\<rparr>"

text \<open>One loop at the addresses 0 and 1 with an empty body. Every loop constant is
  \<open>0x010203\<close>: a count of 3, a start index of 2 and a step of 1. The stacks hold
  values from enclosing loops in all four entries.\<close>

definition example_loop_start :: ParsedLoopStartInstruction where
  "example_loop_start =
     \<lparr>ls_dword_index = 0, ls_loop_constant_index = 0, ls_is_repeat = False,
      ls_loop_skip_address = 2, ls_disasm = ''loop''\<rparr>"

definition example_loop_end :: ParsedLoopEndInstruction where
  "example_loop_end =
     \<lparr>le_dword_index = 1, le_is_predicated_break = False, le_predicate_condition = False,
      le_loop_constant_index = 0, le_loop_body_address = 1, le_disasm = ''endloop''\<rparr>"

definition example_loop_program :: "32 word \<Rightarrow> cf_instr option" where
  "example_loop_program address =
     (if address = 0 then Some (CfLoopStart example_loop_start)
      else if address = 1 then Some (CfLoopEnd example_loop_end)
      else None)"

definition example_loop_constants :: loop_constants where
  "example_loop_constants index = 0x010203"

definition example_vars :: shader_vars where
  "example_vars =
     \<lparr>xe_loop_count = Vec4 5 6 7 8, xe_aL = Vec4 1 2 3 4, xe_p0 = False, xe_pc = 0\<rparr>"

text \<open>A jump at address 5 to address 9, taken when boolean constant 40 is set.\<close>

definition example_jump :: ParsedJumpInstruction where
  "example_jump =
     \<lparr>jmp_dword_index = 5, jmp_type = kJumpConditional, jmp_bool_constant_index = 40,
      jmp_condition = True, jmp_target_address = 9, jmp_disasm = ''(b40) jmp L9\<newline>''\<rparr>"

text \<open>A predicated ALU instruction of the no-op subtype, and a predicated vector add
  \<open>r3 = r1 + r1\<close>.\<close>

definition example_alu_nop :: ParsedAluInstruction where
  "example_alu_nop =
     \<lparr>alu_type = kAluNop, alu_vector_opcode = kAdd, alu_scalar_opcode = kRetainPrev,
      alu_is_predicated = True, alu_predicate_condition = True, alu_result = example_result,
      alu_operands = [], alu_disasm = ''(p0) nop\<newline>''\<rparr>"

definition example_alu_add :: ParsedAluInstruction where
  "example_alu_add =
     \<lparr>alu_type = kAluVector, alu_vector_opcode = kAdd, alu_scalar_opcode = kRetainPrev,
      alu_is_predicated = True, alu_predicate_condition = True, alu_result = example_result,
      alu_operands = [example_operand, example_operand], alu_disasm = ''(p0) add r3, r1, r1\<newline>''\<rparr>"

text \<open>A scalar instruction that sets the predicate, not predicated itself.\<close>

definition example_alu_setp :: ParsedAluInstruction where
  "example_alu_setp =
     \<lparr>alu_type = kAluScalar, alu_vector_opcode = kAdd, alu_scalar_opcode = kSetpEq,
      alu_is_predicated = False, alu_predicate_condition = False,
      alu_result = example_result\<lparr>res_storage_target := kNone\<rparr>,
      alu_operands = [example_operand], alu_disasm = ''setp_eq r1\<newline>''\<rparr>"

text \<open>A vertex fetch whose second operand is a register instead of a vertex-fetch
  constant.\<close>

definition example_bad_vertex_fetch :: ParsedVertexFetchInstruction where
  "example_bad_vertex_fetch =
     \<lparr>vf_is_predicated = False, vf_predicate_condition = False, vf_result = example_result,
      vf_operands = [example_operand, example_operand], vf_data_format = k_8_8_8_8,
      vf_offset = 0, vf_stride = 1, vf_is_signed = True, vf_is_integer = False,
      vf_disasm = ''vfetch r3, r1, r1\<newline>''\<rparr>"

text \<open>An exec block guarded by the predicate, not the last of the program.\<close>

definition example_exec :: ParsedExecInstruction where
  "example_exec =
     \<lparr>exec_dword_index = 0, exec_type = kExecPredicated, exec_bool_constant_index = 0,
      exec_condition = True, exec_is_end = False, exec_disasm = ''(p0) exec\<newline>''\<rparr>"

section \<open>Text is only appended\<close>

text \<open>Every emitter extends the buffer at its end, keeps the indentation, the
  wrote-pc flag and the recorded errors, and never turns the exec-level predicate
  flag on.\<close>

lemma emitted_append: "source_inner b = source_inner a @ t \<Longrightarrow> emitted a b = t"
  by (simp add: emitted_def)

lemma extendsI:
  "source_inner b = source_inner a @ t \<Longrightarrow> depth b = depth a \<Longrightarrow> depth_prefix b = depth_prefix a
   \<Longrightarrow> cf_wrote_pc b = cf_wrote_pc a \<Longrightarrow> errors b = errors a
   \<Longrightarrow> (cf_exec_pred b \<longrightarrow> cf_exec_pred a) \<Longrightarrow> cf_exec_pred_cond b = cf_exec_pred_cond a
   \<Longrightarrow> extends a b"
  by (simp add: extends_def emitted_def)

lemma extends_source: "extends a b \<Longrightarrow> source_inner b = source_inner a @ emitted a b"
  by (simp add: extends_def)

lemma extends_refl [simp]: "extends st st"
  by (simp add: extends_def emitted_def)

lemma extends_trans:
  assumes "extends a b" and "extends b c"
  shows "extends a c"
proof -
  have "source_inner c = source_inner a @ (emitted a b @ emitted b c)"
    using assms by (simp add: extends_def)
  then show ?thesis
    using assms by (intro extendsI) (simp_all add: extends_def)
qed

lemma emitted_trans:
  assumes "extends a b" and "extends b c"
  shows "emitted a c = emitted a b @ emitted b c"
proof -
  have "source_inner c = source_inner a @ (emitted a b @ emitted b c)"
    using assms by (simp add: extends_def)
  then show ?thesis by (rule emitted_append)
qed

lemma extends_EmitSource [simp]: "extends st (EmitSource s st)"
  by (simp add: extends_def emitted_def EmitSource_def)

lemma extends_EmitSourceDepth [simp]: "extends st (EmitSourceDepth s st)"
  by (simp add: extends_def emitted_def EmitSourceDepth_def EmitSource_def)

lemma extends_assert_always [simp]: "extends st (assert_always st)"
  by (simp add: extends_def emitted_def assert_always_def)

lemma extends_step:
  "extends a b \<Longrightarrow> extends b (f b) \<Longrightarrow> extends a (f b)"
  by (rule extends_trans)

lemma extends_EmitSource_after [simp]: "extends a b \<Longrightarrow> extends a (EmitSource s b)"
  by (erule extends_trans) simp

lemma extends_EmitSourceDepth_after [simp]: "extends a b \<Longrightarrow> extends a (EmitSourceDepth s b)"
  by (erule extends_trans) simp

lemma extends_assert_always_after [simp]: "extends a b \<Longrightarrow> extends a (assert_always b)"
  by (erule extends_trans) simp

lemma extends_EmitLoadOperand_expr [simp]:
  "extends a b \<Longrightarrow> extends a (EmitLoadOperand_expr i op m b)"
  by (simp add: EmitLoadOperand_expr_def EmitLoadOperand_index_def EmitLoadOperand_base_def Let_def
      split: InstructionStorageAddressingMode.split InstructionStorageSource.split)

lemma extends_EmitLoadOperand_swizzle [simp]:
  "extends a b \<Longrightarrow> extends a (EmitLoadOperand_swizzle op b)"
  by (simp add: EmitLoadOperand_swizzle_def)

lemma extends_EmitLoadOperand [simp]: "extends a b \<Longrightarrow> extends a (EmitLoadOperand i op b)"
  by (simp add: EmitLoadOperand_def Let_def split: option.split)

lemma extends_EmitLoadOperands [simp]: "extends a b \<Longrightarrow> extends a (EmitLoadOperands i ops b)"
  by (induction ops arbitrary: i b) simp_all

lemma extends_cf_exec_pred [simp]: "extends a b \<Longrightarrow> extends a (b\<lparr>cf_exec_pred := False\<rparr>)"
  by (simp add: extends_def emitted_def)

lemma extends_cube_used [simp]: "extends a b \<Longrightarrow> extends a (b\<lparr>cube_used := v\<rparr>)"
  by (simp add: extends_def emitted_def)

lemma extends_writes_depth [simp]: "extends a b \<Longrightarrow> extends a (b\<lparr>writes_depth := v\<rparr>)"
  by (simp add: extends_def emitted_def)

lemma extends_EmitVectorOpcode [simp]: "extends a b \<Longrightarrow> extends a (EmitVectorOpcode opc b)"
  by (cases opc) simp_all

lemma extends_EmitScalarOpcode [simp]: "extends a b \<Longrightarrow> extends a (EmitScalarOpcode opc b)"
  by (cases opc) simp_all

lemma extends_EmitStoreResult [simp]: "extends a b \<Longrightarrow> extends a (EmitStoreResult r s b)"
  by (cases "res_storage_target r")
     (simp_all add: EmitStoreResult_def EmitStoreResult_index_def EmitStoreResult_scalar_def
      EmitStoreResult_vector_def Let_def split: InstructionStorageAddressingMode.split)

lemma extends_EmitSourceDepthLines [simp]: "extends a b \<Longrightarrow> extends a (EmitSourceDepthLines ls b)"
  by (induction ls arbitrary: b) simp_all

lemma extends_EmitVertexLoad [simp]: "extends a b \<Longrightarrow> extends a (EmitVertexLoad i b)"
  by (simp add: EmitVertexLoad_def Let_def split: prod.split)

lemma extends_VectorAluBody [simp]: "extends a b \<Longrightarrow> extends a (VectorAluBody i b)"
  by (simp add: VectorAluBody_def Let_def)

lemma extends_ScalarAluBody [simp]: "extends a b \<Longrightarrow> extends a (ScalarAluBody i b)"
  by (simp add: ScalarAluBody_def Let_def)

lemma extends_VertexFetchBody [simp]: "extends a b \<Longrightarrow> extends a (VertexFetchBody i b)"
  by (simp add: VertexFetchBody_def Let_def)

lemma extends_TextureFetchBody [simp]: "extends a b \<Longrightarrow> extends a (TextureFetchBody i b)"
  by (simp add: TextureFetchBody_def)

lemma extends_guarded_part [simp]: "extends a b \<Longrightarrow> extends a (guarded_part i b)"
  by (cases i) (simp_all split: AluType.split)

lemma extends_indentation_ok: "extends a b \<Longrightarrow> indentation_ok a \<Longrightarrow> indentation_ok b"
  by (simp add: extends_def indentation_ok_def)

lemma emitted_EmitSourceDepth: "emitted st (EmitSourceDepth s st) = depth_prefix st @ s"
  by (simp add: emitted_def EmitSourceDepth_def EmitSource_def)

lemma emitted_comment:
  "emitted st (EmitSource disasm (EmitSourceDepth ''// '' st)) = disasm_comment st disasm"
  by (simp add: emitted_def EmitSourceDepth_def EmitSource_def disasm_comment_def)

subsection \<open>The fields after each primitive\<close>

lemma fields_EmitSource:
  "source_inner (EmitSource s st) = source_inner st @ s"
  "depth (EmitSource s st) = depth st"
  "depth_prefix (EmitSource s st) = depth_prefix st"
  "cf_wrote_pc (EmitSource s st) = cf_wrote_pc st"
  "cf_exec_pred (EmitSource s st) = cf_exec_pred st"
  "cf_exec_pred_cond (EmitSource s st) = cf_exec_pred_cond st"
  "writes_depth (EmitSource s st) = writes_depth st"
  "srv_bindings (EmitSource s st) = srv_bindings st"
  "sampler_fetch_constants (EmitSource s st) = sampler_fetch_constants st"
  "sampler_count (EmitSource s st) = sampler_count st"
  "cube_used (EmitSource s st) = cube_used st"
  "errors (EmitSource s st) = errors st"
  "asserts_hit (EmitSource s st) = asserts_hit st"
  by (simp_all add: EmitSource_def)

lemma fields_EmitSourceDepth:
  "source_inner (EmitSourceDepth s st) = source_inner st @ depth_prefix st @ s"
  "depth (EmitSourceDepth s st) = depth st"
  "depth_prefix (EmitSourceDepth s st) = depth_prefix st"
  "cf_wrote_pc (EmitSourceDepth s st) = cf_wrote_pc st"
  "cf_exec_pred (EmitSourceDepth s st) = cf_exec_pred st"
  "cf_exec_pred_cond (EmitSourceDepth s st) = cf_exec_pred_cond st"
  "writes_depth (EmitSourceDepth s st) = writes_depth st"
  "srv_bindings (EmitSourceDepth s st) = srv_bindings st"
  "sampler_fetch_constants (EmitSourceDepth s st) = sampler_fetch_constants st"
  "sampler_count (EmitSourceDepth s st) = sampler_count st"
  "cube_used (EmitSourceDepth s st) = cube_used st"
  "errors (EmitSourceDepth s st) = errors st"
  "asserts_hit (EmitSourceDepth s st) = asserts_hit st"
  by (simp_all add: EmitSourceDepth_def EmitSource_def)

lemma fields_Indent:
  "source_inner (Indent st) = source_inner st"
  "depth (Indent st) = depth st + 2"
  "depth_prefix (Indent st) = take (depth st) (depth_prefix st) @ ''  ''"
  "cf_wrote_pc (Indent st) = cf_wrote_pc st"
  "cf_exec_pred (Indent st) = cf_exec_pred st"
  "cf_exec_pred_cond (Indent st) = cf_exec_pred_cond st"
  "writes_depth (Indent st) = writes_depth st"
  "srv_bindings (Indent st) = srv_bindings st"
  "sampler_fetch_constants (Indent st) = sampler_fetch_constants st"
  "sampler_count (Indent st) = sampler_count st"
  "cube_used (Indent st) = cube_used st"
  "errors (Indent st) = errors st"
  "asserts_hit (Indent st) = asserts_hit st"
  by (simp_all add: Indent_def)

lemma fields_Unindent:
  "source_inner (Unindent st) = source_inner st"
  "depth (Unindent st) = depth st - 2"
  "depth_prefix (Unindent st) = take (depth st - 2) (depth_prefix st)"
  "cf_wrote_pc (Unindent st) = cf_wrote_pc st"
  "cf_exec_pred (Unindent st) = cf_exec_pred st"
  "cf_exec_pred_cond (Unindent st) = cf_exec_pred_cond st"
  "writes_depth (Unindent st) = writes_depth st"
  "srv_bindings (Unindent st) = srv_bindings st"
  "sampler_fetch_constants (Unindent st) = sampler_fetch_constants st"
  "sampler_count (Unindent st) = sampler_count st"
  "cube_used (Unindent st) = cube_used st"
  "errors (Unindent st) = errors st"
  "asserts_hit (Unindent st) = asserts_hit st"
  by (simp_all add: Unindent_def)

lemma fields_assert_always:
  "source_inner (assert_always st) = source_inner st"
  "depth (assert_always st) = depth st"
  "depth_prefix (assert_always st) = depth_prefix st"
  "cf_wrote_pc (assert_always st) = cf_wrote_pc st"
  "cf_exec_pred (assert_always st) = cf_exec_pred st"
  "cf_exec_pred_cond (assert_always st) = cf_exec_pred_cond st"
  "writes_depth (assert_always st) = writes_depth st"
  "srv_bindings (assert_always st) = srv_bindings st"
  "sampler_fetch_constants (assert_always st) = sampler_fetch_constants st"
  "sampler_count (assert_always st) = sampler_count st"
  "cube_used (assert_always st) = cube_used st"
  "errors (assert_always st) = errors st"
  "asserts_hit (assert_always st) = Suc (asserts_hit st)"
  by (simp_all add: assert_always_def)

lemmas fields = fields_EmitSource fields_EmitSourceDepth fields_Indent fields_Unindent fields_assert_always

subsection \<open>Evaluating the translator on examples\<close>

lemma u32_str_digits:
  "u32_str 0 = ''0''" "u32_str 1 = ''1''" "u32_str 2 = ''2''" "u32_str 3 = ''3''"
  "u32_str 4 = ''4''" "u32_str 5 = ''5''" "u32_str 6 = ''6''" "u32_str 7 = ''7''"
  "u32_str 8 = ''8''" "u32_str 9 = ''9''"
  by (simp_all add: u32_str_def string_of_nat.simps)

lemma replicate_small:
  "replicate 1 c = [c]" "replicate 2 c = [c, c]" "replicate 3 c = [c, c, c]"
  by (simp_all add: eval_nat_numeral)

lemma started_translator_eq:
  "started_translator =
     \<lparr>source_inner = ''      case 0u:\<newline>'', depth = 6, depth_prefix = ''      '',
      cf_wrote_pc = False, cf_exec_pred = False, cf_exec_pred_cond = False, writes_depth = False,
      srv_bindings = [], sampler_fetch_constants = [0, 0, 0, 0, 0, 0, 0, 0], sampler_count = 0,
      cube_used = False, errors = [], asserts_hit = 0\<rparr>"
  by (simp add: started_translator_def StartTranslation_def fresh_translator_def
      Indent_def EmitSourceDepth_def EmitSource_def)

lemma indentation_ok_started: "indentation_ok started_translator"
  by (simp add: started_translator_eq indentation_ok_def)

lemmas emit_eval =
  emitted_def EmitSource_def EmitSourceDepth_def Indent_def Unindent_def assert_always_def Let_def
  predicate_test_def bool_constant_test_def BeginPredicatedInstruction_def
  EndPredicatedInstruction_def u32_str_digits replicate_small

lemmas instr_eval =
  ProcessAluInstruction_def ProcessVectorAluInstruction_def ProcessScalarAluInstruction_def
  VectorAluBody_def ScalarAluBody_def ProcessVertexFetchInstruction_def VertexFetchBody_def
  ProcessTextureFetchInstruction_def TextureFetchBody_def
  EmitLoadOperand_def EmitLoadOperand_expr_def EmitLoadOperand_index_def EmitLoadOperand_base_def
  EmitLoadOperand_swizzle_def is_standard_swizzle_def EmitStoreResult_def EmitStoreResult_index_def EmitStoreResult_scalar_def
  EmitStoreResult_vector_def has_any_writes_def written_components_def vec4_list_def
  GetSwizzleFromComponentIndex_def store_component_text_def

lemmas example_defs =
  example_result_def example_operand_def example_jump_def example_alu_nop_def example_alu_add_def
  example_alu_setp_def example_bad_vertex_fetch_def

section \<open>Result stores that write nothing\<close>

text \<open>C10: for every result whose storage target is none, \<open>EmitStoreResult\<close> emits no
  text and leaves the whole translator state unchanged (the depth-written flag
  included), whatever the write mask, the swizzle, the addressing mode and the
  saturation flag are.\<close>

theorem EmitStoreResult_target_none:
  "res_storage_target result = kNone \<Longrightarrow>
     EmitStoreResult result source_is_scalar st = st
     \<and> emitted st (EmitStoreResult result source_is_scalar st) = []"
  by (simp add: EmitStoreResult_def emitted_def)

theorem EmitStoreResult_target_none_witness:
  "res_storage_target (example_result\<lparr>res_storage_target := kNone\<rparr>) = kNone
   \<and> EmitStoreResult (example_result\<lparr>res_storage_target := kNone\<rparr>) False started_translator
       = started_translator"
  using EmitStoreResult_target_none
    [of "example_result\<lparr>res_storage_target := kNone\<rparr>" False started_translator]
  by simp

text \<open>C5: for every result whose write mask is all-false, and for the scalar-only
  targets point size and depth every result whose first write-mask component is
  false, \<open>EmitStoreResult\<close> emits no assignment: it returns the translator as it
  was.\<close>

theorem EmitStoreResult_nothing_written:
  "(if res_storage_target result = kPointSize \<or> res_storage_target result = kDepth
    then \<not> vx (res_write_mask result)
    else res_write_mask result = Vec4 False False False False) \<Longrightarrow>
     EmitStoreResult result source_is_scalar st = st
     \<and> emitted st (EmitStoreResult result source_is_scalar st) = []"
  by (auto simp add: EmitStoreResult_def has_any_writes_def Let_def emitted_def split: if_splits)

theorem EmitStoreResult_nothing_written_witness:
  "EmitStoreResult (example_result\<lparr>res_write_mask := Vec4 False False False False\<rparr>) False
       started_translator = started_translator
   \<and> EmitStoreResult
        (example_result\<lparr>res_storage_target := kDepth, res_write_mask := Vec4 False True True True\<rparr>)
        True started_translator = started_translator"
  using
    EmitStoreResult_nothing_written
      [of "example_result\<lparr>res_write_mask := Vec4 False False False False\<rparr>" False started_translator]
    EmitStoreResult_nothing_written
      [of "example_result\<lparr>res_storage_target := kDepth, res_write_mask := Vec4 False True True True\<rparr>"
          True started_translator]
  by (simp add: example_result_def)

section \<open>Jumps\<close>

text \<open>C2: a jump at dword address 5 conditioned on boolean constant 40 emits a test
  of bit 8 of boolean word 1, an if-branch that assigns the jump target to the
  counter and breaks, and an else-branch that assigns 6; an unconditional jump
  emits a plain block with the assignment and no else-branch.\<close>

theorem ProcessJumpInstruction_text:
  assumes "indentation_ok st"
  shows
   "(jmp_type instr = kJumpConditional \<and> jmp_bool_constant_index instr = 40
       \<and> jmp_dword_index instr = 5 \<longrightarrow>
     emitted st (ProcessJumpInstruction instr st) =
       depth_prefix st @ ''// '' @ jmp_disasm instr
       @ depth_prefix st @ ''if ((xe_bool_constants[1] & (1u << 8u)) ''
           @ [if jmp_condition instr then CHR ''!'' else CHR ''=''] @ ''= 0u) {\<newline>''
       @ depth_prefix st @ ''  xe_pc = '' @ u32_str (jmp_target_address instr) @ ''u;  // L''
           @ u32_str (jmp_target_address instr) @ ''\<newline>''
       @ depth_prefix st @ ''  break;\<newline>''
       @ depth_prefix st @ ''} else {\<newline>''
       @ depth_prefix st @ ''  xe_pc = 6u;  // Fallthrough to L6\<newline>''
       @ depth_prefix st @ ''}\<newline>'')
    \<and> (jmp_type instr = kJumpUnconditional \<longrightarrow>
     emitted st (ProcessJumpInstruction instr st) =
       depth_prefix st @ ''// '' @ jmp_disasm instr
       @ depth_prefix st @ ''{\<newline>''
       @ depth_prefix st @ ''  xe_pc = '' @ u32_str (jmp_target_address instr) @ ''u;  // L''
           @ u32_str (jmp_target_address instr) @ ''\<newline>''
       @ depth_prefix st @ ''  break;\<newline>''
       @ depth_prefix st @ ''}\<newline>'')"
  using assms
  by (simp add: ProcessJumpInstruction_def Let_def EmitSourceDepth_def EmitSource_def Indent_def
      Unindent_def emitted_def bool_constant_test_def indentation_ok_def u32_str_digits)

theorem ProcessJumpInstruction_text_witness:
  "indentation_ok started_translator
   \<and> emitted started_translator (ProcessJumpInstruction example_jump started_translator) =
       ''      // (b40) jmp L9\<newline>''
       @ ''      if ((xe_bool_constants[1] & (1u << 8u)) != 0u) {\<newline>''
       @ ''        xe_pc = 9u;  // L9\<newline>''
       @ ''        break;\<newline>''
       @ ''      } else {\<newline>''
       @ ''        xe_pc = 6u;  // Fallthrough to L6\<newline>''
       @ ''      }\<newline>''"
proof -
  have jump: "jmp_type example_jump = kJumpConditional \<and> jmp_bool_constant_index example_jump = 40
      \<and> jmp_dword_index example_jump = 5"
    by (simp add: example_jump_def)
  from ProcessJumpInstruction_text
         [OF indentation_ok_started, of example_jump, THEN conjunct1, THEN mp, OF jump]
       indentation_ok_started
  show ?thesis
    by (simp add: started_translator_eq example_jump_def u32_str_digits)
qed

section \<open>Loop stacks\<close>

lemma dispatch_run_add:
  "dispatch_run lc program (m + n) v = dispatch_run lc program n (dispatch_run lc program m v)"
  by (induction m arbitrary: v) simp_all

lemma dispatch_run_1: "dispatch_run lc program 1 v = dispatch_step lc program v"
  by simp

text \<open>The loop-start pushes the count and the index.\<close>

lemma loop_start_code_entered:
  assumes "lc (ls_loop_constant_index s) AND 0xFF \<noteq> 0"
  shows "xe_pc (loop_start_code lc s v) = ls_dword_index s + 1
     \<and> (\<exists>x. xe_loop_count (loop_start_code lc s v)
             = Vec4 x (vx (xe_loop_count v)) (vy (xe_loop_count v)) (vz (xe_loop_count v)))
     \<and> (\<exists>x. xe_aL (loop_start_code lc s v)
             = Vec4 x (vx (xe_aL v)) (vy (xe_aL v)) (vz (xe_aL v)))"
  using assms by (simp add: loop_start_code_def Let_def)

text \<open>The loop-end either pops both stacks and leaves, or decrements the count,
  steps the index and branches back.\<close>

lemma loop_end_code_exit:
  assumes "loop_end_exits e v"
  shows "xe_pc (loop_end_code lc e v) = le_dword_index e + 1
     \<and> xe_loop_count (loop_end_code lc e v) = pop_stack (xe_loop_count v)
     \<and> xe_aL (loop_end_code lc e v) = pop_stack (xe_aL v)"
  using assms by (auto simp add: loop_end_code_def loop_end_exits_def pop_stack_def Let_def)

lemma loop_end_code_back:
  assumes "\<not> loop_end_exits e v"
  shows "xe_pc (loop_end_code lc e v) = le_loop_body_address e
     \<and> xe_loop_count (loop_end_code lc e v)
         = Vec4 (vx (xe_loop_count v) - 1) (vy (xe_loop_count v)) (vz (xe_loop_count v))
             (vw (xe_loop_count v))
     \<and> (\<exists>x. xe_aL (loop_end_code lc e v) = Vec4 x (vy (xe_aL v)) (vz (xe_aL v)) (vw (xe_aL v)))"
  using assms by (auto simp add: loop_end_code_def loop_end_exits_def Let_def)

lemma unat_pred_less: "(x :: 32 word) \<noteq> 0 \<Longrightarrow> unat (x - 1) < unat x"
  by (simp add: unat_minus_one unat_gt_0)

lemma pop_zero_last_tail:
  "m \<le> 3 \<Longrightarrow> pop_stack (zero_last m (Vec4 x (vy (zero_last m s)) (vz (zero_last m s)) (vw (zero_last m s))))
     = pop_stack (zero_last m s)"
  by (simp add: pop_stack_def zero_last_def)

lemma pop_zero_last_push:
  "m \<le> 3 \<Longrightarrow> pop_stack (zero_last m (Vec4 x (vx s) (vy s) (vz s))) = zero_last (Suc m) s"
  by (simp add: pop_stack_def zero_last_def)

text \<open>A loop whose body keeps the top of both stacks runs until its loop-end
  leaves: the count on top goes down with every turn.\<close>

lemma loop_iterates_until_exit:
  assumes m: "m \<le> 3"
    and e: "program q = Some (CfLoopEnd e)" "le_dword_index e = q" "le_loop_body_address e = p"
    and body: "\<And>u. xe_pc u = p \<Longrightarrow>
      \<exists>n. xe_pc (dispatch_run lc program n u) = q
        \<and> xe_loop_count (dispatch_run lc program n u) = zero_last m (xe_loop_count u)
        \<and> xe_aL (dispatch_run lc program n u) = zero_last m (xe_aL u)"
  shows "xe_pc v = p \<Longrightarrow>
      \<exists>n. xe_pc (dispatch_run lc program n v) = q + 1
        \<and> xe_loop_count (dispatch_run lc program n v) = pop_stack (zero_last m (xe_loop_count v))
        \<and> xe_aL (dispatch_run lc program n v) = pop_stack (zero_last m (xe_aL v))"
proof (induction "unat (vx (xe_loop_count v) - 1)" arbitrary: v rule: less_induct)
  case less
  from body [OF less.prems] obtain n1 where
    n1: "xe_pc (dispatch_run lc program n1 v) = q"
      "xe_loop_count (dispatch_run lc program n1 v) = zero_last m (xe_loop_count v)"
      "xe_aL (dispatch_run lc program n1 v) = zero_last m (xe_aL v)"
    by blast
  define v1 where "v1 = dispatch_run lc program n1 v"
  define v2 where "v2 = loop_end_code lc e v1"
  have top: "vx (xe_loop_count v1) = vx (xe_loop_count v)"
    using n1(2) m by (simp add: v1_def zero_last_def)
  have "dispatch_step lc program v1 = v2"
    using n1(1) e(1) by (simp add: dispatch_step_def v1_def v2_def)
  moreover have "dispatch_run lc program (n1 + 1) v = dispatch_step lc program v1"
    by (simp only: dispatch_run_add dispatch_run_1 v1_def)
  ultimately have run1: "dispatch_run lc program (n1 + 1) v = v2"
    by simp
  show ?case
  proof (cases "loop_end_exits e v1")
    case True
    from loop_end_code_exit [of e v1 lc, OF True] have
      "xe_pc v2 = q + 1
       \<and> xe_loop_count v2 = pop_stack (zero_last m (xe_loop_count v))
       \<and> xe_aL v2 = pop_stack (zero_last m (xe_aL v))"
      using e(2) n1(2,3) by (simp add: v2_def v1_def)
    with run1 show ?thesis by metis
  next
    case False
    from loop_end_code_back [of e v1 lc, OF False] obtain x where
      lb: "xe_pc v2 = p"
        "xe_loop_count v2 = Vec4 (vx (xe_loop_count v1) - 1) (vy (xe_loop_count v1))
           (vz (xe_loop_count v1)) (vw (xe_loop_count v1))"
        "xe_aL v2 = Vec4 x (vy (xe_aL v1)) (vz (xe_aL v1)) (vw (xe_aL v1))"
      using e(3) by (auto simp add: v2_def)
    from False have "vx (xe_loop_count v1) - 1 \<noteq> 0"
      by (simp add: loop_end_exits_def)
    then have "unat (vx (xe_loop_count v1) - 1 - 1) < unat (vx (xe_loop_count v1) - 1)"
      by (rule unat_pred_less)
    moreover have "vx (xe_loop_count v2) = vx (xe_loop_count v1) - 1"
      by (simp only: lb(2) vec4.sel)
    ultimately have "unat (vx (xe_loop_count v2) - 1) < unat (vx (xe_loop_count v) - 1)"
      by (simp only: top)
    from less.hyps [OF this lb(1)] obtain n2 where
      n2: "xe_pc (dispatch_run lc program n2 v2) = q + 1"
        "xe_loop_count (dispatch_run lc program n2 v2) = pop_stack (zero_last m (xe_loop_count v2))"
        "xe_aL (dispatch_run lc program n2 v2) = pop_stack (zero_last m (xe_aL v2))"
      by blast
    have c: "pop_stack (zero_last m (xe_loop_count v2)) = pop_stack (zero_last m (xe_loop_count v))"
      using lb(2) n1(2) pop_zero_last_tail [OF m] by (simp add: v1_def)
    have a: "pop_stack (zero_last m (xe_aL v2)) = pop_stack (zero_last m (xe_aL v))"
      using lb(3) n1(3) pop_zero_last_tail [OF m] by (simp add: v1_def)
    have "dispatch_run lc program (n1 + 1 + n2) v = dispatch_run lc program n2 v2"
      using run1 by (simp only: dispatch_run_add [of lc program "n1 + 1" n2])
    with n2 c a show ?thesis by metis
  qed
qed

lemma zero_last_0: "zero_last 0 s = s"
  by (simp add: zero_last_def)




section \<open>Predicate guards\<close>

lemma BeginPredicatedInstruction_opened:
  "fst (BeginPredicatedInstruction p c st) \<longleftrightarrow> p \<and> \<not> fast_path_covers st c"
  by (auto simp add: BeginPredicatedInstruction_def fast_path_covers_def)

lemma BeginPredicatedInstruction_snd:
  "snd (BeginPredicatedInstruction p c st) =
     (if p \<and> \<not> fast_path_covers st c then Indent (EmitSourceDepth (predicate_test c) st) else st)"
  by (auto simp add: BeginPredicatedInstruction_def fast_path_covers_def)

text \<open>The state inside an opened guard.\<close>

lemma inside_guard:
  assumes "indentation_ok st"
  shows "source_inner (Indent (EmitSourceDepth t st)) = source_inner st @ depth_prefix st @ t"
    and "depth (Indent (EmitSourceDepth t st)) = depth st + 2"
    and "depth_prefix (Indent (EmitSourceDepth t st)) = depth_prefix st @ ''  ''"
    and "cf_wrote_pc (Indent (EmitSourceDepth t st)) = cf_wrote_pc st"
    and "errors (Indent (EmitSourceDepth t st)) = errors st"
    and "cf_exec_pred (Indent (EmitSourceDepth t st)) = cf_exec_pred st"
    and "cf_exec_pred_cond (Indent (EmitSourceDepth t st)) = cf_exec_pred_cond st"
  using assms by (simp_all add: Indent_def EmitSourceDepth_def EmitSource_def indentation_ok_def)

text \<open>A block that only appends text, run between \<open>Indent\<close> and \<open>Unindent\<close> with an
  opening and a closing line around it.\<close>

lemma bracketed:
  assumes ok: "indentation_ok st" and body: "extends (Indent (EmitSourceDepth t st)) s"
  shows "source_inner (EmitSourceDepth c (Unindent s)) =
      source_inner st @ depth_prefix st @ t @ emitted (Indent (EmitSourceDepth t st)) s
      @ depth_prefix st @ c"
    and "depth (EmitSourceDepth c (Unindent s)) = depth st"
    and "depth_prefix (EmitSourceDepth c (Unindent s)) = depth_prefix st"
    and "cf_wrote_pc (EmitSourceDepth c (Unindent s)) = cf_wrote_pc st"
    and "errors (EmitSourceDepth c (Unindent s)) = errors st"
    and "cf_exec_pred (EmitSourceDepth c (Unindent s)) \<longrightarrow> cf_exec_pred st"
    and "cf_exec_pred_cond (EmitSourceDepth c (Unindent s)) = cf_exec_pred_cond st"
proof -
  from body have s:
    "source_inner s = source_inner st @ depth_prefix st @ t @ emitted (Indent (EmitSourceDepth t st)) s"
    "depth s = depth st + 2"
    "depth_prefix s = depth_prefix st @ ''  ''"
    "cf_wrote_pc s = cf_wrote_pc st"
    "errors s = errors st"
    "cf_exec_pred s \<longrightarrow> cf_exec_pred st"
    "cf_exec_pred_cond s = cf_exec_pred_cond st"
    by (simp_all add: extends_def inside_guard [OF ok])
  have d: "length (depth_prefix st) = depth st"
    using ok by (simp add: indentation_ok_def)
  show "depth (EmitSourceDepth c (Unindent s)) = depth st"
    by (simp add: EmitSourceDepth_def EmitSource_def Unindent_def s(2))
  show "depth_prefix (EmitSourceDepth c (Unindent s)) = depth_prefix st"
    by (simp add: EmitSourceDepth_def EmitSource_def Unindent_def s(2,3) d)
  show "cf_wrote_pc (EmitSourceDepth c (Unindent s)) = cf_wrote_pc st"
    by (simp add: EmitSourceDepth_def EmitSource_def Unindent_def s(4))
  show "errors (EmitSourceDepth c (Unindent s)) = errors st"
    by (simp add: EmitSourceDepth_def EmitSource_def Unindent_def s(5))
  show "cf_exec_pred (EmitSourceDepth c (Unindent s)) \<longrightarrow> cf_exec_pred st"
    using s(6) by (simp add: EmitSourceDepth_def EmitSource_def Unindent_def)
  show "cf_exec_pred_cond (EmitSourceDepth c (Unindent s)) = cf_exec_pred_cond st"
    by (simp add: EmitSourceDepth_def EmitSource_def Unindent_def s(7))
  show "source_inner (EmitSourceDepth c (Unindent s)) =
      source_inner st @ depth_prefix st @ t @ emitted (Indent (EmitSourceDepth t st)) s
      @ depth_prefix st @ c"
    by (simp add: EmitSourceDepth_def EmitSource_def Unindent_def s(1,2,3) d)
qed

lemma bracketed_extends:
  assumes "indentation_ok st" and "extends (Indent (EmitSourceDepth t st)) s"
  shows "extends st (EmitSourceDepth c (Unindent s))"
  using bracketed [OF assms] by (intro extendsI) simp_all

lemma bracketed_emitted:
  assumes "indentation_ok st" and "extends (Indent (EmitSourceDepth t st)) s"
  shows "emitted st (EmitSourceDepth c (Unindent s)) =
      depth_prefix st @ t @ emitted (Indent (EmitSourceDepth t st)) s @ depth_prefix st @ c"
  using bracketed(1) [OF assms] by (rule emitted_append)

text \<open>A block \<open>f\<close> that only appends text, between \<open>BeginPredicatedInstruction\<close>
  and \<open>EndPredicatedInstruction\<close>.\<close>

lemma guarded_opened:
  "p \<and> \<not> fast_path_covers st c \<Longrightarrow>
     EndPredicatedInstruction (fst (BeginPredicatedInstruction p c st))
       (f (snd (BeginPredicatedInstruction p c st)))
     = EmitSourceDepth ''}\<newline>'' (Unindent (f (Indent (EmitSourceDepth (predicate_test c) st))))"
  by (auto simp add: BeginPredicatedInstruction_def EndPredicatedInstruction_def fast_path_covers_def)

lemma guarded_closed:
  "\<not> (p \<and> \<not> fast_path_covers st c) \<Longrightarrow>
     EndPredicatedInstruction (fst (BeginPredicatedInstruction p c st))
       (f (snd (BeginPredicatedInstruction p c st)))
     = f st"
  by (auto simp add: BeginPredicatedInstruction_def EndPredicatedInstruction_def fast_path_covers_def)

lemma guarded_extends:
  assumes ok: "indentation_ok st" and body: "\<And>s. extends s (f s)"
  shows "extends st
     (EndPredicatedInstruction (fst (BeginPredicatedInstruction p c st))
        (f (snd (BeginPredicatedInstruction p c st))))"
proof (cases "p \<and> \<not> fast_path_covers st c")
  case True
  show ?thesis
    unfolding guarded_opened [OF True]
    using ok body by (rule bracketed_extends)
next
  case False
  show ?thesis
    unfolding guarded_closed [OF False] by (rule body)
qed

lemma guarded_emitted:
  assumes ok: "indentation_ok st" and body: "\<And>s. extends s (f s)"
  shows "emitted st
     (EndPredicatedInstruction (fst (BeginPredicatedInstruction p c st))
        (f (snd (BeginPredicatedInstruction p c st)))) =
     (if p \<and> \<not> fast_path_covers st c
      then depth_prefix st @ predicate_test c
           @ emitted (Indent (EmitSourceDepth (predicate_test c) st))
               (f (Indent (EmitSourceDepth (predicate_test c) st)))
           @ depth_prefix st @ ''}\<newline>''
      else emitted st (f st))"
proof (cases "p \<and> \<not> fast_path_covers st c")
  case True
  have "emitted st (EmitSourceDepth ''}\<newline>'' (Unindent (f (Indent (EmitSourceDepth (predicate_test c) st)))))
      = depth_prefix st @ predicate_test c
        @ emitted (Indent (EmitSourceDepth (predicate_test c) st))
            (f (Indent (EmitSourceDepth (predicate_test c) st)))
        @ depth_prefix st @ ''}\<newline>''"
    using ok body by (rule bracketed_emitted)
  then show ?thesis
    by (simp only: guarded_opened [OF True] if_P [OF True])
next
  case False
  show ?thesis
    by (simp only: guarded_closed [OF False] if_not_P [OF False])
qed

text \<open>The four instruction hooks as guarded blocks.\<close>

lemma ProcessVectorAluInstruction_guarded:
  "ProcessVectorAluInstruction i st =
     EndPredicatedInstruction
       (fst (BeginPredicatedInstruction (alu_is_predicated i) (alu_predicate_condition i) st))
       (VectorAluBody i
          (snd (BeginPredicatedInstruction (alu_is_predicated i) (alu_predicate_condition i) st)))"
  by (simp add: ProcessVectorAluInstruction_def Let_def split_def)

lemma ProcessScalarAluInstruction_guarded:
  "ProcessScalarAluInstruction i st =
     EndPredicatedInstruction
       (fst (BeginPredicatedInstruction (alu_is_predicated i) (alu_predicate_condition i) st))
       (ScalarAluBody i
          (snd (BeginPredicatedInstruction (alu_is_predicated i) (alu_predicate_condition i) st)))"
  by (simp add: ProcessScalarAluInstruction_def Let_def split_def)

lemma ProcessTextureFetchInstruction_guarded:
  "ProcessTextureFetchInstruction i st =
     EndPredicatedInstruction
       (fst (BeginPredicatedInstruction (tf_is_predicated i) (tf_predicate_condition i)
               (EmitSource (tf_disasm i) (EmitSourceDepth ''// '' st))))
       (TextureFetchBody i
          (snd (BeginPredicatedInstruction (tf_is_predicated i) (tf_predicate_condition i)
                  (EmitSource (tf_disasm i) (EmitSourceDepth ''// '' st)))))"
  by (simp add: ProcessTextureFetchInstruction_def Let_def split_def)

lemma ProcessVertexFetchInstruction_guarded:
  "vertex_fetch_well_formed i \<Longrightarrow>
   ProcessVertexFetchInstruction i st =
     EndPredicatedInstruction
       (fst (BeginPredicatedInstruction (vf_is_predicated i) (vf_predicate_condition i)
               (EmitSource (vf_disasm i) (EmitSourceDepth ''// '' st))))
       (VertexFetchBody i
          (snd (BeginPredicatedInstruction (vf_is_predicated i) (vf_predicate_condition i)
                  (EmitSource (vf_disasm i) (EmitSourceDepth ''// '' st)))))"
  by (simp add: ProcessVertexFetchInstruction_def vertex_fetch_well_formed_def Let_def split_def)

lemma ProcessVertexFetchInstruction_malformed:
  "\<not> vertex_fetch_well_formed i \<Longrightarrow>
   ProcessVertexFetchInstruction i st =
     assert_always (EmitSource (vf_disasm i) (EmitSourceDepth ''// '' st))"
  by (simp add: ProcessVertexFetchInstruction_def vertex_fetch_well_formed_def Let_def)

text \<open>Every translated instruction is its comment followed by its guarded part.\<close>

lemma ProcessExecBodyInstruction_guarded:
  "is_translated i \<Longrightarrow>
   ProcessExecBodyInstruction i st =
     EndPredicatedInstruction
       (fst (BeginPredicatedInstruction (instr_is_predicated i) (instr_predicate_condition i)
               (EmitSource (instr_disasm i) (EmitSourceDepth ''// '' st))))
       (guarded_part i
          (snd (BeginPredicatedInstruction (instr_is_predicated i) (instr_predicate_condition i)
                  (EmitSource (instr_disasm i) (EmitSourceDepth ''// '' st)))))"
proof (cases i)
  case (VertexFetch v)
  assume "is_translated i"
  with VertexFetch show ?thesis
    by (simp add: ProcessVertexFetchInstruction_guarded)
next
  case (TextureFetch t)
  then show ?thesis
    by (simp add: ProcessTextureFetchInstruction_guarded)
next
  case (Alu a)
  assume "is_translated i"
  with Alu show ?thesis
    by (cases "alu_type a")
       (simp_all add: ProcessAluInstruction_def ProcessVectorAluInstruction_guarded
          ProcessScalarAluInstruction_guarded Let_def)
qed

lemma comment_state:
  "indentation_ok st \<Longrightarrow> indentation_ok (EmitSource d (EmitSourceDepth ''// '' st))"
  "depth_prefix (EmitSource d (EmitSourceDepth ''// '' st)) = depth_prefix st"
  "fast_path_covers (EmitSource d (EmitSourceDepth ''// '' st)) c = fast_path_covers st c"
  "extends st (EmitSource d (EmitSourceDepth ''// '' st))"
  by (simp_all add: indentation_ok_def EmitSource_def EmitSourceDepth_def fast_path_covers_def
      extends_def emitted_def)

lemma ProcessExecBodyInstruction_extends:
  assumes "indentation_ok st"
  shows "extends st (ProcessExecBodyInstruction i st)"
proof (cases "is_translated i")
  case True
  have "extends (EmitSource (instr_disasm i) (EmitSourceDepth ''// '' st))
      (ProcessExecBodyInstruction i st)"
    unfolding ProcessExecBodyInstruction_guarded [OF True]
    by (rule guarded_extends) (simp_all add: comment_state assms)
  with comment_state(4) show ?thesis by (rule extends_trans)
next
  case False
  then show ?thesis
    by (cases i)
       (simp_all add: ProcessVertexFetchInstruction_malformed ProcessAluInstruction_def Let_def)
qed

lemma ProcessExecBody_extends:
  "indentation_ok st \<Longrightarrow> extends st (ProcessExecBody body st)"
proof (induction body arbitrary: st)
  case Nil
  then show ?case by simp
next
  case (Cons i body)
  have step: "extends st (ProcessExecBodyInstruction i st)"
    using Cons.prems by (rule ProcessExecBodyInstruction_extends)
  then have "indentation_ok (ProcessExecBodyInstruction i st)"
    using Cons.prems by (rule extends_indentation_ok)
  then have "extends (ProcessExecBodyInstruction i st) (ProcessExecBody body (ProcessExecBodyInstruction i st))"
    by (rule Cons.IH)
  with step show ?case
    by (simp add: extends_trans)
qed

section \<open>Control-flow instructions\<close>

text \<open>The state an exec block opens for its instructions.\<close>

lemma ProcessExecInstructionBegin_inside:
  assumes "indentation_ok st"
  shows "\<exists>line. source_inner (ProcessExecInstructionBegin e st)
           = source_inner st @ disasm_comment st (exec_disasm e) @ depth_prefix st @ line"
    and "depth (ProcessExecInstructionBegin e st) = depth st + 2"
    and "depth_prefix (ProcessExecInstructionBegin e st) = depth_prefix st @ ''  ''"
    and "cf_wrote_pc (ProcessExecInstructionBegin e st) = cf_wrote_pc st"
    and "errors (ProcessExecInstructionBegin e st) = errors st"
  using assms
  by (cases "exec_type e";
      simp add: ProcessExecInstructionBegin_def Let_def fields indentation_ok_def disasm_comment_def)+

lemma ProcessExecInstructionEnd_outside:
  assumes "depth s = d + 2" and "depth_prefix s = p @ ''  ''" and "length p = d"
  shows "\<exists>t. source_inner (ProcessExecInstructionEnd e s) = source_inner s @ t"
    and "depth (ProcessExecInstructionEnd e s) = d"
    and "depth_prefix (ProcessExecInstructionEnd e s) = p"
    and "cf_wrote_pc (ProcessExecInstructionEnd e s) = (cf_wrote_pc s \<or> exec_is_end e)"
    and "errors (ProcessExecInstructionEnd e s) = errors s"
  using assms
  by (simp_all add: ProcessExecInstructionEnd_def Let_def fields)

text \<open>Every control-flow instruction leaves the indentation as it found it, starts
  with its comment, and sets the wrote-pc flag exactly when it is a loop start, a
  loop end or the last exec block.\<close>

lemma TranslateControlFlowInstruction_exec:
  assumes ok: "indentation_ok st"
  shows "depth (TranslateControlFlowInstruction cf_index (CfExec e body) st) = depth st
     \<and> depth_prefix (TranslateControlFlowInstruction cf_index (CfExec e body) st) = depth_prefix st
     \<and> cf_wrote_pc (TranslateControlFlowInstruction cf_index (CfExec e body) st)
         = (cf_wrote_pc st \<or> exec_is_end e)
     \<and> errors (TranslateControlFlowInstruction cf_index (CfExec e body) st) = errors st
     \<and> (\<exists>rest. source_inner (TranslateControlFlowInstruction cf_index (CfExec e body) st)
           = source_inner st @ disasm_comment st (exec_disasm e) @ rest)"
proof -
  let ?I = "ProcessExecInstructionBegin e st"
  let ?B = "ProcessExecBody body ?I"
  note I = ProcessExecInstructionBegin_inside [OF ok, of e]
  have d: "length (depth_prefix st) = depth st"
    using ok by (simp add: indentation_ok_def)
  have "indentation_ok ?I"
    using I(2,3) d by (simp add: indentation_ok_def)
  then have "extends ?I ?B" by (rule ProcessExecBody_extends)
  then have B: "source_inner ?B = source_inner ?I @ emitted ?I ?B" "depth ?B = depth st + 2"
    "depth_prefix ?B = depth_prefix st @ ''  ''" "cf_wrote_pc ?B = cf_wrote_pc st"
    "errors ?B = errors st"
    using I(2-5) by (simp_all add: extends_def)
  note E = ProcessExecInstructionEnd_outside [OF B(2) B(3) d, of e]
  from I(1) obtain line where
    "source_inner ?I = source_inner st @ disasm_comment st (exec_disasm e) @ depth_prefix st @ line"
    by blast
  moreover from E(1) obtain t where "source_inner (ProcessExecInstructionEnd e ?B) = source_inner ?B @ t"
    by blast
  ultimately have "source_inner (ProcessExecInstructionEnd e ?B) =
      source_inner st @ disasm_comment st (exec_disasm e) @ (depth_prefix st @ line @ emitted ?I ?B @ t)"
    using B(1) by simp
  then have "\<exists>rest. source_inner (ProcessExecInstructionEnd e ?B) =
      source_inner st @ disasm_comment st (exec_disasm e) @ rest"
    by blast
  then show ?thesis
    using E(2-5) B(4,5) by simp
qed

lemma TranslateControlFlowInstruction_frame:
  assumes ok: "indentation_ok st"
  shows "depth (TranslateControlFlowInstruction cf_index instr st) = depth st
     \<and> depth_prefix (TranslateControlFlowInstruction cf_index instr st) = depth_prefix st
     \<and> cf_wrote_pc (TranslateControlFlowInstruction cf_index instr st)
         = (cf_wrote_pc st \<or> sets_cf_wrote_pc instr)
     \<and> (\<exists>rest. source_inner (TranslateControlFlowInstruction cf_index instr st)
           = source_inner st @ disasm_comment st (cf_comment instr) @ rest)"
proof (cases instr)
  case CfNop
  then show ?thesis
    by (simp add: ProcessControlFlowNopInstruction_def fields disasm_comment_def)
next
  case (CfExec e body)
  then show ?thesis
    using TranslateControlFlowInstruction_exec [OF ok, of cf_index e body] by simp
next
  case (CfLoopStart s)
  then show ?thesis
    by (simp add: ProcessLoopStartInstruction_def Let_def fields disasm_comment_def)
next
  case (CfLoopEnd e)
  then show ?thesis
    using ok
    by (simp add: ProcessLoopEndInstruction_def Let_def fields indentation_ok_def disasm_comment_def)
next
  case (CfCall d)
  then show ?thesis
    by (simp add: ProcessCallInstruction_def EmitUnimplementedTranslationError_def
        ShaderTranslator_EmitUnimplementedTranslationError_def fields disasm_comment_def)
next
  case (CfReturn d)
  then show ?thesis
    by (simp add: ProcessReturnInstruction_def EmitUnimplementedTranslationError_def
        ShaderTranslator_EmitUnimplementedTranslationError_def fields disasm_comment_def)
next
  case (CfJump j)
  then show ?thesis
    using ok
    by (cases "jmp_type j";
        simp add: ProcessJumpInstruction_def Let_def fields indentation_ok_def disasm_comment_def)
next
  case (CfAlloc d)
  then show ?thesis
    by (simp add: ProcessAllocInstruction_def fields disasm_comment_def)
qed

text \<open>C1, as the code has it: the hook of a loop start, of a loop end and of the
  exec block that ends the program sets the wrote-pc flag, and no other hook does (a
  jump assigns the counter in its own text and leaves the flag clear). When the
  flag is clear, the end of the instruction emits a fall-through comment only; the
  fallthrough assignment is emitted by the label of the following address, if
  there is one: exactly one assignment of the label's address (\<open>dword_index + 1\<close>
  when the label is the next address), followed by \<open>break;\<close>, before the label's
  case opens. When the flag is set, the label emits its case only. Address 0 has
  no label.\<close>

theorem fallthrough_synthesis:
  assumes "indentation_ok st"
  shows
   "cf_wrote_pc (TranslateControlFlow cf_index instr st) = sets_cf_wrote_pc instr
    \<and> emitted (TranslateControlFlowInstruction cf_index instr (ProcessControlFlowInstructionBegin cf_index st))
         (TranslateControlFlow cf_index instr st)
       = (if sets_cf_wrote_pc instr then []
          else depth_prefix st @ ''// Falling through to L'' @ u32_str (cf_index + 1) @ ''\<newline>'')
    \<and> emitted (TranslateControlFlow cf_index instr st)
         (ProcessLabel label (TranslateControlFlow cf_index instr st))
       = (if label = 0 then []
          else (if sets_cf_wrote_pc instr then [] else fallthrough_assignment st label)
               @ case_label st label)"
proof -
  let ?b = "ProcessControlFlowInstructionBegin cf_index st"
  let ?t = "TranslateControlFlowInstruction cf_index instr ?b"
  have b: "indentation_ok ?b" "depth_prefix ?b = depth_prefix st" "\<not> cf_wrote_pc ?b"
    using assms by (simp_all add: ProcessControlFlowInstructionBegin_def indentation_ok_def)
  from TranslateControlFlowInstruction_frame [OF b(1), of cf_index instr] have
    t: "depth_prefix ?t = depth_prefix st" "cf_wrote_pc ?t = sets_cf_wrote_pc instr"
    using b(2,3) by simp_all
  have e: "TranslateControlFlow cf_index instr st = ProcessControlFlowInstructionEnd cf_index ?t"
    by (simp add: TranslateControlFlow_def)
  have 1: "cf_wrote_pc (TranslateControlFlow cf_index instr st) = sets_cf_wrote_pc instr"
    using t(2) by (simp add: e ProcessControlFlowInstructionEnd_def fields)
  have p: "depth_prefix (TranslateControlFlow cf_index instr st) = depth_prefix st"
    using t(1) by (simp add: e ProcessControlFlowInstructionEnd_def fields)
  have 2: "emitted ?t (TranslateControlFlow cf_index instr st)
       = (if sets_cf_wrote_pc instr then []
          else depth_prefix st @ ''// Falling through to L'' @ u32_str (cf_index + 1) @ ''\<newline>'')"
    using t by (simp add: e ProcessControlFlowInstructionEnd_def emitted_EmitSourceDepth)
      (simp add: emitted_def)
  have 3: "emitted s (ProcessLabel label s)
       = (if label = 0 then []
          else (if cf_wrote_pc s then []
                else depth_prefix s @ ''xe_pc = '' @ u32_str label @ ''u;\<newline>'' @ depth_prefix s @ ''break;'')
               @ depth_prefix s @ ''case '' @ u32_str label @ ''u:\<newline>'')" for s
    by (simp add: ProcessLabel_def Let_def emitted_def fields)
  show ?thesis
    using 1 2 by (simp add: 3 p fallthrough_assignment_def case_label_def)
qed

theorem fallthrough_synthesis_witness:
  "indentation_ok started_translator
   \<and> \<not> cf_wrote_pc (TranslateControlFlow 3 CfNop started_translator)
   \<and> emitted (TranslateControlFlow 3 CfNop started_translator)
        (ProcessLabel 4 (TranslateControlFlow 3 CfNop started_translator))
       = ''      xe_pc = 4u;\<newline>      break;      case 4u:\<newline>''
   \<and> cf_wrote_pc (TranslateControlFlow 0 (CfLoopStart example_loop_start) started_translator)
   \<and> emitted (TranslateControlFlow 0 (CfLoopStart example_loop_start) started_translator)
        (ProcessLabel 1 (TranslateControlFlow 0 (CfLoopStart example_loop_start) started_translator))
       = ''      case 1u:\<newline>''"
  using fallthrough_synthesis [OF indentation_ok_started, of 3 CfNop 4]
    fallthrough_synthesis [OF indentation_ok_started, of 0 "CfLoopStart example_loop_start" 1]
    indentation_ok_started
  by (simp add: fallthrough_assignment_def case_label_def started_translator_eq u32_str_digits)

text \<open>C1 as stated fails: the conditional jump at address 5 assigns the counter in
  both of its branches, and the label of address 6 still emits the fallthrough
  assignment before its case.\<close>

theorem fallthrough_synthesis_counterexample:
  "emitted started_translator (TranslateControlFlow 5 (CfJump example_jump) started_translator) =
       ''      // (b40) jmp L9\<newline>''
       @ ''      if ((xe_bool_constants[1] & (1u << 8u)) != 0u) {\<newline>''
       @ ''        xe_pc = 9u;  // L9\<newline>''
       @ ''        break;\<newline>''
       @ ''      } else {\<newline>''
       @ ''        xe_pc = 6u;  // Fallthrough to L6\<newline>''
       @ ''      }\<newline>''
       @ ''      // Falling through to L6\<newline>''
   \<and> emitted (TranslateControlFlow 5 (CfJump example_jump) started_translator)
        (ProcessLabel 6 (TranslateControlFlow 5 (CfJump example_jump) started_translator))
       = ''      xe_pc = 6u;\<newline>      break;      case 6u:\<newline>''"
  by (simp add: TranslateControlFlow_def ProcessControlFlowInstructionBegin_def
      ProcessControlFlowInstructionEnd_def ProcessJumpInstruction_def ProcessLabel_def
      started_translator_eq example_jump_def emit_eval)

section \<open>Instructions that are not translated\<close>

lemma ProcessExecBodyInstruction_comment:
  assumes "indentation_ok st"
  shows "\<exists>rest. emitted st (ProcessExecBodyInstruction i st) = disasm_comment st (instr_disasm i) @ rest"
proof -
  let ?c = "EmitSource (instr_disasm i) (EmitSourceDepth ''// '' st)"
  have c: "extends st ?c" by (rule comment_state)
  have "extends ?c (ProcessExecBodyInstruction i st)"
  proof (cases "is_translated i")
    case True
    show ?thesis
      unfolding ProcessExecBodyInstruction_guarded [OF True]
      by (rule guarded_extends) (simp_all add: comment_state assms)
  next
    case False
    then show ?thesis
      by (cases i)
         (simp_all add: ProcessVertexFetchInstruction_malformed ProcessAluInstruction_def Let_def)
  qed
  with c have "emitted st (ProcessExecBodyInstruction i st) =
      emitted st ?c @ emitted ?c (ProcessExecBodyInstruction i st)"
    by (rule emitted_trans)
  then show ?thesis
    by (simp add: emitted_comment)
qed




section \<open>Operand swizzles\<close>

lemma emitted_EmitLoadOperand:
  assumes "storage_index_max (op_storage_source op) = Some m"
  shows "emitted st (EmitLoadOperand i op st) =
     emitted st (EmitLoadOperand_expr i op m st)
     @ emitted (EmitLoadOperand_expr i op m st)
         (EmitLoadOperand_swizzle op (EmitLoadOperand_expr i op m st))
     @ '';\<newline>''"
proof -
  let ?e = "EmitLoadOperand_expr i op m st"
  have "extends st ?e" by simp
  moreover have "extends ?e (EmitSource '';\<newline>'' (EmitLoadOperand_swizzle op ?e))" by simp
  ultimately have "emitted st (EmitSource '';\<newline>'' (EmitLoadOperand_swizzle op ?e)) =
      emitted st ?e @ emitted ?e (EmitSource '';\<newline>'' (EmitLoadOperand_swizzle op ?e))"
    by (rule emitted_trans)
  moreover have "emitted ?e (EmitSource '';\<newline>'' (EmitLoadOperand_swizzle op ?e)) =
      emitted ?e (EmitLoadOperand_swizzle op ?e) @ emitted (EmitLoadOperand_swizzle op ?e)
        (EmitSource '';\<newline>'' (EmitLoadOperand_swizzle op ?e))"
    by (rule emitted_trans) simp_all
  moreover have "emitted s (EmitSource '';\<newline>'' s) = '';\<newline>''" for s
    by (simp add: emitted_def EmitSource_def)
  ultimately show ?thesis
    using assms by (simp add: EmitLoadOperand_def Let_def)
qed

lemma EmitLoadOperand_expr_closes:
  "\<exists>pre. emitted st (EmitLoadOperand_expr i op m st) = pre @ '')''"
proof -
  let ?b = "EmitLoadOperand_base op
     (EmitSource ''(''
        (let st2 = EmitSourceDepth (''xe_src'' @ u32_str (of_nat i) @ '' = '')
                     (EmitLoadOperand_index op m st);
             st3 = (if op_is_negated op then EmitSource ''-'' st2 else st2)
         in if op_is_absolute_value op then EmitSource ''abs'' st3 else st3))"
  have e: "EmitLoadOperand_expr i op m st = EmitSource '')'' ?b"
    by (simp add: EmitLoadOperand_expr_def Let_def)
  have "extends st ?b"
    by (simp add: EmitLoadOperand_index_def EmitLoadOperand_base_def Let_def
        split: InstructionStorageAddressingMode.split InstructionStorageSource.split)
  moreover have "extends ?b (EmitSource '')'' ?b)" by simp
  ultimately have "emitted st (EmitSource '')'' ?b) = emitted st ?b @ emitted ?b (EmitSource '')'' ?b)"
    by (rule emitted_trans)
  then show ?thesis
    by (simp only: e) (simp add: emitted_def EmitSource_def)
qed

text \<open>C6: an operand read from a register or a float constant with a partial swizzle
  (one to three components) gets, right after the closing parenthesis of its
  expression, the requested components followed by the last requested component
  repeated up to four lanes; an integer-constant or boolean-constant operand gets
  \<open>.xxxx\<close> whatever swizzle it carries.\<close>

theorem EmitLoadOperand_swizzle_padding:
  "((op_storage_source op = kSrcRegister \<or> op_storage_source op = kConstantFloat)
      \<and> 1 \<le> op_component_count op \<and> op_component_count op < 4 \<longrightarrow>
      (\<exists>pre. emitted st (EmitLoadOperand i op st) =
         pre @ '').''
         @ map GetCharForSwizzle (take (op_component_count op) (vec4_list (op_components op)))
         @ replicate (4 - op_component_count op)
             (GetCharForSwizzle (vec4_list (op_components op) ! (op_component_count op - 1)))
         @ '';\<newline>''))
   \<and> (op_storage_source op = kConstantInt \<or> op_storage_source op = kConstantBool \<longrightarrow>
      (\<exists>pre. emitted st (EmitLoadOperand i op st) = pre @ '').xxxx;\<newline>''))"
proof (intro conjI impI)
  assume a: "(op_storage_source op = kSrcRegister \<or> op_storage_source op = kConstantFloat)
      \<and> 1 \<le> op_component_count op \<and> op_component_count op < 4"
  then obtain m where m: "storage_index_max (op_storage_source op) = Some m"
    by auto
  obtain pre where pre: "emitted st (EmitLoadOperand_expr i op m st) = pre @ '')''"
    using EmitLoadOperand_expr_closes by blast
  have "emitted (EmitLoadOperand_expr i op m st)
          (EmitLoadOperand_swizzle op (EmitLoadOperand_expr i op m st)) =
      ''.'' @ map GetCharForSwizzle (take (op_component_count op) (vec4_list (op_components op)))
      @ replicate (4 - op_component_count op)
          (GetCharForSwizzle (vec4_list (op_components op) ! (op_component_count op - 1)))"
    using a by (auto simp add: EmitLoadOperand_swizzle_def is_standard_swizzle_def emitted_def
        EmitSource_def)
  with emitted_EmitLoadOperand [OF m, of st i] pre
  have "emitted st (EmitLoadOperand i op st) =
         pre @ '').''
         @ map GetCharForSwizzle (take (op_component_count op) (vec4_list (op_components op)))
         @ replicate (4 - op_component_count op)
             (GetCharForSwizzle (vec4_list (op_components op) ! (op_component_count op - 1)))
         @ '';\<newline>''"
    by simp
  then show "\<exists>pre. emitted st (EmitLoadOperand i op st) =
         pre @ '').''
         @ map GetCharForSwizzle (take (op_component_count op) (vec4_list (op_components op)))
         @ replicate (4 - op_component_count op)
             (GetCharForSwizzle (vec4_list (op_components op) ! (op_component_count op - 1)))
         @ '';\<newline>''"
    by blast
next
  assume a: "op_storage_source op = kConstantInt \<or> op_storage_source op = kConstantBool"
  then obtain m where m: "storage_index_max (op_storage_source op) = Some m"
    by auto
  obtain pre where pre: "emitted st (EmitLoadOperand_expr i op m st) = pre @ '')''"
    using EmitLoadOperand_expr_closes by blast
  have "emitted (EmitLoadOperand_expr i op m st)
          (EmitLoadOperand_swizzle op (EmitLoadOperand_expr i op m st)) = ''.xxxx''"
    using a by (auto simp add: EmitLoadOperand_swizzle_def emitted_def EmitSource_def)
  with emitted_EmitLoadOperand [OF m, of st i] pre
  have "emitted st (EmitLoadOperand i op st) = pre @ '').xxxx;\<newline>''"
    by simp
  then show "\<exists>pre. emitted st (EmitLoadOperand i op st) = pre @ '').xxxx;\<newline>''"
    by blast
qed

theorem EmitLoadOperand_swizzle_padding_witness:
  "emitted started_translator
     (EmitLoadOperand 0 (example_operand\<lparr>op_component_count := 1, op_components := Vec4 kX kY kZ kW\<rparr>)
        started_translator)
     = ''      xe_src0 = (xe_r[1]).xxxx;\<newline>''
   \<and> emitted started_translator
       (EmitLoadOperand 1 (example_operand\<lparr>op_storage_source := kConstantFloat, op_storage_index := 33,
                                            op_component_count := 2\<rparr>)
          started_translator)
       = ''      xe_src1 = (xe_float_constants[1].c[1]).xyyy;\<newline>''
   \<and> emitted started_translator
       (EmitLoadOperand 2 (example_operand\<lparr>op_storage_source := kConstantBool, op_storage_index := 40,
                                            op_component_count := 2, op_components := Vec4 kW kZ kY kX\<rparr>)
          started_translator)
       = ''      xe_src2 = (float((xe_bool_constants[1] >> 8u) & 1u)).xxxx;\<newline>''"
  using
    EmitLoadOperand_swizzle_padding
      [of "example_operand\<lparr>op_component_count := 1, op_components := Vec4 kX kY kZ kW\<rparr>"
          started_translator 0]
  by (simp add: started_translator_eq example_defs instr_eval emit_eval)

section \<open>Binding allocator\<close>

lemma find_binding_None: "find_binding k xs = None \<longleftrightarrow> k \<notin> set xs"
  by (induction xs) auto

lemma find_binding_Some:
  "find_binding k xs = Some i \<Longrightarrow> i < length xs \<and> xs ! i = k"
  by (induction xs arbitrary: i) (auto split: if_splits)

lemma find_binding_append_left:
  "find_binding k xs = Some i \<Longrightarrow> find_binding k (xs @ ys) = Some i"
  by (induction xs arbitrary: i) (auto split: if_splits)

lemma find_binding_append_new:
  "k \<notin> set xs \<Longrightarrow> find_binding k (xs @ k # ys) = Some (length xs)"
  by (induction xs) auto

lemma find_binding_inj:
  "find_binding k xs = Some i \<Longrightarrow> find_binding k' xs = Some i \<Longrightarrow> k = k'"
  using find_binding_Some by metis

lemma first_seen_Nil [simp]: "first_seen [] = []"
  by (simp add: first_seen_def)

lemma distinct_first_seen: "distinct (first_seen ks)"
  by (simp add: first_seen_def)

lemma set_first_seen: "set (first_seen ks) = set ks"
  by (simp add: first_seen_def)

lemma remdups_append_filter:
  "remdups (xs @ ys) = remdups [x \<leftarrow> xs. x \<notin> set ys] @ remdups ys"
  by (induction xs) auto

lemma first_seen_seen:
  "k \<in> set t \<Longrightarrow> first_seen (t @ k # ks) = first_seen (t @ ks)"
  by (simp add: first_seen_def remdups_append_filter [of "rev ks"] insert_absorb)

lemma first_seen_distinct_prefix:
  "distinct t \<Longrightarrow> first_seen (t @ ks) = t @ rev (remdups [x \<leftarrow> rev ks. x \<notin> set t])"
  by (simp add: first_seen_def remdups_append_filter [of "rev ks"] distinct_remdups_id)

lemma find_binding_first_seen_old:
  assumes "distinct t" and "find_binding k t = Some i"
  shows "find_binding k (first_seen (t @ ks)) = Some i"
  using assms by (simp add: first_seen_distinct_prefix find_binding_append_left)

lemma find_binding_first_seen_new:
  assumes "distinct t" and "k \<notin> set t"
  shows "find_binding k (first_seen (t @ k # ks)) = Some (length t)"
proof -
  have "first_seen ((t @ [k]) @ ks) = (t @ [k]) @ rev (remdups [x \<leftarrow> rev ks. x \<notin> set (t @ [k])])"
    using assms by (intro first_seen_distinct_prefix) simp
  then show ?thesis
    using assms(2) by (simp add: find_binding_append_new)
qed

text \<open>A run of calls from a table without repetitions: the table ends as the keys
  in first-seen order, and every call returns the position of its key there.\<close>

lemma AddSRVBindings_first_seen:
  "distinct (srv_bindings st) \<Longrightarrow>
     AddSRVBindings ks st =
       (map (\<lambda>k. the (find_binding k (first_seen (srv_bindings st @ ks)))) ks,
        st\<lparr>srv_bindings := first_seen (srv_bindings st @ ks)\<rparr>)"
proof (induction ks arbitrary: st)
  case Nil
  then show ?case by (simp add: first_seen_distinct_prefix [of _ "[]", simplified])
next
  case (Cons k ks)
  obtain type fetch_constant where k: "k = (type, fetch_constant)" by (cases k)
  show ?case
  proof (cases "find_binding k (srv_bindings st)")
    case None
    then have new: "k \<notin> set (srv_bindings st)" by (simp add: find_binding_None)
    define st1 where "st1 = st\<lparr>srv_bindings := srv_bindings st @ [k]\<rparr>"
    have add: "AddSRVBinding type fetch_constant st = (length (srv_bindings st), st1)"
      using None by (simp add: AddSRVBinding_def k st1_def)
    have "distinct (srv_bindings st1)"
      using Cons.prems new by (simp add: st1_def)
    from Cons.IH [OF this] have
      "AddSRVBindings ks st1 =
         (map (\<lambda>k'. the (find_binding k' (first_seen (srv_bindings st @ k # ks)))) ks,
          st\<lparr>srv_bindings := first_seen (srv_bindings st @ k # ks)\<rparr>)"
      by (simp add: st1_def)
    then show ?thesis
      using add find_binding_first_seen_new [OF Cons.prems new, of ks] by (simp add: k)
  next
    case (Some i)
    then have old: "k \<in> set (srv_bindings st)"
      using find_binding_None [of k "srv_bindings st"] by auto
    have add: "AddSRVBinding type fetch_constant st = (i, st)"
      using Some by (simp add: AddSRVBinding_def k)
    from Cons.IH [OF Cons.prems] have
      "AddSRVBindings ks st =
         (map (\<lambda>k'. the (find_binding k' (first_seen (srv_bindings st @ k # ks)))) ks,
          st\<lparr>srv_bindings := first_seen (srv_bindings st @ k # ks)\<rparr>)"
      by (simp add: first_seen_seen [OF old])
    then show ?thesis
      using add find_binding_first_seen_old [OF Cons.prems Some, of "k # ks"] by (simp add: k)
  qed
qed

lemma AddSRVBindings_grows:
  "\<exists>r. srv_bindings (snd (AddSRVBindings ks st)) = srv_bindings st @ r"
proof (induction ks arbitrary: st)
  case Nil
  then show ?case by simp
next
  case (Cons k ks)
  obtain type fetch_constant where k: "k = (type, fetch_constant)" by (cases k)
  obtain i st1 where add: "AddSRVBinding type fetch_constant st = (i, st1)" by force
  then obtain r1 where "srv_bindings st1 = srv_bindings st @ r1"
    by (auto simp add: AddSRVBinding_def split: option.splits)
  moreover from Cons.IH [of st1] obtain r2 where
    "srv_bindings (snd (AddSRVBindings ks st1)) = srv_bindings st1 @ r2" by blast
  ultimately have "srv_bindings (snd (AddSRVBindings ks st1)) = srv_bindings st @ (r1 @ r2)"
    by simp
  moreover have "snd (AddSRVBindings (k # ks) st) = snd (AddSRVBindings ks st1)"
    using add by (simp add: k split: prod.splits)
  ultimately show ?case by metis
qed

lemma AddSRVBinding_found:
  "AddSRVBinding type fetch_constant st = (i, st1) \<Longrightarrow>
     find_binding (type, fetch_constant) (srv_bindings st1) = Some i"
  by (auto simp add: AddSRVBinding_def find_binding_None find_binding_append_new [where ys = "[]"]
      split: option.splits)

lemma AddSRVBinding_repeat:
  "find_binding (type, fetch_constant) (srv_bindings st) = Some i \<Longrightarrow>
     AddSRVBinding type fetch_constant st = (i, st)"
  by (simp add: AddSRVBinding_def)

text \<open>The sampler array: the entries in use are the first \<open>sampler_count\<close>.\<close>

lemma AddSampler_repeat:
  "find_binding fetch_constant (take (sampler_count st) (sampler_fetch_constants st)) = Some i \<Longrightarrow>
     AddSampler fetch_constant st = Some (i, st)"
  by (simp add: AddSampler_def)

lemma AddSampler_new:
  assumes "fetch_constant \<notin> set (take (sampler_count st) (sampler_fetch_constants st))"
    and "sampler_count st < length (sampler_fetch_constants st)"
  shows "AddSampler fetch_constant st =
     Some (sampler_count st,
           st\<lparr>sampler_fetch_constants :=
                (sampler_fetch_constants st)[sampler_count st := fetch_constant],
              sampler_count := sampler_count st + 1\<rparr>)"
  using assms by (simp add: AddSampler_def find_binding_None [THEN iffD2])

lemma take_Suc_update:
  "c < length arr \<Longrightarrow> take (Suc c) (arr[c := k]) = take c arr @ [k]"
  by (simp add: take_Suc_conv_app_nth)

lemma AddSampler_found:
  assumes "AddSampler fetch_constant st = Some (i, st1)"
  shows "find_binding fetch_constant (take (sampler_count st1) (sampler_fetch_constants st1)) = Some i"
proof (cases "find_binding fetch_constant (take (sampler_count st) (sampler_fetch_constants st))")
  case None
  then have new: "fetch_constant \<notin> set (take (sampler_count st) (sampler_fetch_constants st))"
    by (simp add: find_binding_None)
  from assms None have room: "sampler_count st < length (sampler_fetch_constants st)"
    by (simp add: AddSampler_def split: if_splits)
  from AddSampler_new [OF new room] assms have
    "i = sampler_count st"
    "take (sampler_count st1) (sampler_fetch_constants st1)
       = take (sampler_count st) (sampler_fetch_constants st) @ [fetch_constant]"
    using room by (auto simp add: take_Suc_update)
  then show ?thesis
    using new room find_binding_append_new [of fetch_constant _ "[]"] by simp
next
  case (Some j)
  with assms show ?thesis by (simp add: AddSampler_def)
qed

lemma AddSamplers_first_seen:
  assumes "sampler_count st \<le> length (sampler_fetch_constants st)"
    and "distinct (take (sampler_count st) (sampler_fetch_constants st))"
    and "length (first_seen (take (sampler_count st) (sampler_fetch_constants st) @ ks))
           \<le> length (sampler_fetch_constants st)"
  shows "AddSamplers ks st =
     Some (map (\<lambda>k. the (find_binding k
                  (first_seen (take (sampler_count st) (sampler_fetch_constants st) @ ks)))) ks,
           st\<lparr>sampler_fetch_constants :=
                first_seen (take (sampler_count st) (sampler_fetch_constants st) @ ks)
                @ drop (length (first_seen (take (sampler_count st) (sampler_fetch_constants st) @ ks)))
                    (sampler_fetch_constants st),
              sampler_count :=
                length (first_seen (take (sampler_count st) (sampler_fetch_constants st) @ ks))\<rparr>)"
  using assms
proof (induction ks arbitrary: st)
  case Nil
  then show ?case
    by (simp add: first_seen_distinct_prefix [of _ "[]", simplified] min_absorb2)
next
  case (Cons k ks)
  define t where "t = take (sampler_count st) (sampler_fetch_constants st)"
  have t_len: "length t = sampler_count st"
    using Cons.prems(1) by (simp add: t_def)
  have t_dist: "distinct t"
    using Cons.prems(2) by (simp add: t_def)
  show ?case
  proof (cases "find_binding k t")
    case None
    then have new: "k \<notin> set t" by (simp add: find_binding_None)
    have T: "first_seen (t @ k # ks) = (t @ [k]) @ rev (remdups [x \<leftarrow> rev ks. x \<notin> set (t @ [k])])"
      using first_seen_distinct_prefix [of "t @ [k]" ks] t_dist new by simp
    then have len: "sampler_count st < length (first_seen (t @ k # ks))"
      using t_len by simp
    with Cons.prems(3) have room: "sampler_count st < length (sampler_fetch_constants st)"
      by (simp add: t_def)
    define st1 where "st1 = st\<lparr>sampler_fetch_constants := (sampler_fetch_constants st)[sampler_count st := k],
                                sampler_count := sampler_count st + 1\<rparr>"
    have add: "AddSampler k st = Some (sampler_count st, st1)"
      using AddSampler_new [of k st] new room by (simp add: t_def st1_def)
    have t1: "take (sampler_count st1) (sampler_fetch_constants st1) = t @ [k]"
      using room by (simp add: st1_def t_def take_Suc_update)
    have "AddSamplers ks st1 =
       Some (map (\<lambda>k'. the (find_binding k' (first_seen ((t @ [k]) @ ks)))) ks,
             st1\<lparr>sampler_fetch_constants :=
                   first_seen ((t @ [k]) @ ks)
                   @ drop (length (first_seen ((t @ [k]) @ ks))) (sampler_fetch_constants st1),
                 sampler_count := length (first_seen ((t @ [k]) @ ks))\<rparr>)"
      using Cons.IH [of st1] Cons.prems(3) room t_dist new
      by (simp only: t1) (simp add: st1_def t_def)
    moreover have "drop (length (first_seen (t @ k # ks))) (sampler_fetch_constants st1)
        = drop (length (first_seen (t @ k # ks))) (sampler_fetch_constants st)"
      using len by (simp add: st1_def)
    moreover have "find_binding k (first_seen (t @ k # ks)) = Some (sampler_count st)"
      using find_binding_first_seen_new [OF t_dist new, of ks] t_len by simp
    ultimately show ?thesis
      using add by (simp add: t_def [symmetric] st1_def)
  next
    case (Some i)
    then have old: "k \<in> set t"
      using find_binding_None [of k t] by auto
    have add: "AddSampler k st = Some (i, st)"
      using Some by (simp add: AddSampler_def t_def)
    have "AddSamplers ks st =
       Some (map (\<lambda>k'. the (find_binding k' (first_seen (t @ ks)))) ks,
             st\<lparr>sampler_fetch_constants :=
                  first_seen (t @ ks) @ drop (length (first_seen (t @ ks))) (sampler_fetch_constants st),
                sampler_count := length (first_seen (t @ ks))\<rparr>)"
      using Cons.IH [of st] Cons.prems by (simp add: t_def first_seen_seen [OF old [unfolded t_def]])
    then show ?thesis
      using add find_binding_first_seen_old [OF t_dist Some, of "k # ks"]
      by (simp add: t_def [symmetric] first_seen_seen [OF old])
  qed
qed


text \<open>C7: within one translation, a second \<open>AddSRVBinding\<close> call with the same kind
  and fetch constant returns the same index, also after other calls in between; a
  key that is not in the table yet gets the index after all indices in use; and
  from the empty table the calls return the positions of their keys in first-seen
  order, which is also the table they leave. The same holds for \<open>AddSampler\<close> on
  the fetch constant alone, as long as the sampler array has room.\<close>

theorem binding_allocator_indices:
  "(AddSRVBinding type fetch_constant st = (i, st1) \<and> AddSRVBindings ks st1 = (js, st2)
      \<longrightarrow> AddSRVBinding type fetch_constant st2 = (i, st2))
   \<and> ((type, fetch_constant) \<notin> set (srv_bindings st)
      \<longrightarrow> fst (AddSRVBinding type fetch_constant st) = length (srv_bindings st)
          \<and> (\<forall>k j. find_binding k (srv_bindings st) = Some j \<longrightarrow> j < length (srv_bindings st)))
   \<and> (srv_bindings st = []
      \<longrightarrow> AddSRVBindings ks st =
            (map (\<lambda>k. the (find_binding k (first_seen ks))) ks,
             st\<lparr>srv_bindings := first_seen ks\<rparr>))
   \<and> (AddSampler fetch_constant st = Some (i, st1)
      \<longrightarrow> AddSampler fetch_constant st1 = Some (i, st1))
   \<and> (fetch_constant \<notin> set (take (sampler_count st) (sampler_fetch_constants st))
        \<and> sampler_count st < length (sampler_fetch_constants st)
      \<longrightarrow> map_option fst (AddSampler fetch_constant st) = Some (sampler_count st)
          \<and> (\<forall>k j. find_binding k (take (sampler_count st) (sampler_fetch_constants st)) = Some j
                \<longrightarrow> j < sampler_count st))
   \<and> (sampler_count st = 0 \<and> length (first_seen fs) \<le> length (sampler_fetch_constants st)
      \<longrightarrow> AddSamplers fs st =
            Some (map (\<lambda>k. the (find_binding k (first_seen fs))) fs,
                  st\<lparr>sampler_fetch_constants :=
                       first_seen fs @ drop (length (first_seen fs)) (sampler_fetch_constants st),
                     sampler_count := length (first_seen fs)\<rparr>))"
proof (intro conjI impI allI)
  assume a: "AddSRVBinding type fetch_constant st = (i, st1) \<and> AddSRVBindings ks st1 = (js, st2)"
  then have "find_binding (type, fetch_constant) (srv_bindings st1) = Some i"
    using AddSRVBinding_found by blast
  moreover obtain r where "srv_bindings st2 = srv_bindings st1 @ r"
    using AddSRVBindings_grows [of ks st1] a by auto
  ultimately have "find_binding (type, fetch_constant) (srv_bindings st2) = Some i"
    by (simp add: find_binding_append_left)
  then show "AddSRVBinding type fetch_constant st2 = (i, st2)"
    by (rule AddSRVBinding_repeat)
next
  assume "(type, fetch_constant) \<notin> set (srv_bindings st)"
  then show "fst (AddSRVBinding type fetch_constant st) = length (srv_bindings st)"
    by (simp add: AddSRVBinding_def find_binding_None [THEN iffD2])
next
  fix k j assume "find_binding k (srv_bindings st) = Some j"
  then show "j < length (srv_bindings st)"
    by (simp add: find_binding_Some)
next
  assume "srv_bindings st = []"
  then show "AddSRVBindings ks st =
      (map (\<lambda>k. the (find_binding k (first_seen ks))) ks, st\<lparr>srv_bindings := first_seen ks\<rparr>)"
    using AddSRVBindings_first_seen [of st ks] by simp
next
  assume a: "AddSampler fetch_constant st = Some (i, st1)"
  from AddSampler_found [OF a] show "AddSampler fetch_constant st1 = Some (i, st1)"
    by (rule AddSampler_repeat)
next
  assume "fetch_constant \<notin> set (take (sampler_count st) (sampler_fetch_constants st))
      \<and> sampler_count st < length (sampler_fetch_constants st)"
  then show "map_option fst (AddSampler fetch_constant st) = Some (sampler_count st)"
    by (simp add: AddSampler_new)
next
  fix k j
  assume "fetch_constant \<notin> set (take (sampler_count st) (sampler_fetch_constants st))
      \<and> sampler_count st < length (sampler_fetch_constants st)"
    and "find_binding k (take (sampler_count st) (sampler_fetch_constants st)) = Some j"
  then show "j < sampler_count st"
    using find_binding_Some [of k "take (sampler_count st) (sampler_fetch_constants st)" j] by simp
next
  assume "sampler_count st = 0 \<and> length (first_seen fs) \<le> length (sampler_fetch_constants st)"
  then show "AddSamplers fs st =
      Some (map (\<lambda>k. the (find_binding k (first_seen fs))) fs,
            st\<lparr>sampler_fetch_constants :=
                 first_seen fs @ drop (length (first_seen fs)) (sampler_fetch_constants st),
               sampler_count := length (first_seen fs)\<rparr>)"
    using AddSamplers_first_seen [of st fs] by simp
qed

theorem binding_allocator_indices_witness:
  "AddSRVBindings [(0, 5), (1, 5), (0, 5), (0, 7)] fresh_translator =
     ([0, 1, 0, 2], fresh_translator\<lparr>srv_bindings := [(0, 5), (1, 5), (0, 7)]\<rparr>)
   \<and> AddSamplers [5, 5, 7] fresh_translator =
       Some ([0, 0, 1],
             fresh_translator\<lparr>sampler_fetch_constants := [5, 7, 0, 0, 0, 0, 0, 0],
                              sampler_count := 2\<rparr>)"
proof -
  note all = binding_allocator_indices
    [of 0 5 fresh_translator 0 fresh_translator "[(0, 5), (1, 5), (0, 5), (0, 7)]" "[]"
        fresh_translator "[5, 5, 7]"]
  have seen: "first_seen [(0, 5), (1, 5), (0, 5), (0 :: nat, 7 :: 32 word)] = [(0, 5), (1, 5), (0, 7)]"
    "first_seen [5, 5, 7 :: 32 word] = [5, 7]"
    by (simp_all add: first_seen_def)
  have idx: "map (\<lambda>k. the (find_binding k [(0, 5), (1, 5), (0 :: nat, 7 :: 32 word)]))
        [(0, 5), (1, 5), (0, 5), (0, 7)] = [0, 1, 0, 2]"
    "map (\<lambda>k. the (find_binding k [5, 7 :: 32 word])) [5, 5, 7] = [0, 0, 1]"
    "[5, 7] @ drop 2 (sampler_fetch_constants fresh_translator) = [5, 7, 0, 0, 0, 0, 0, 0]"
    "length [5, 7 :: 32 word] = 2"
    by (simp_all add: fresh_translator_def)
  have empty: "srv_bindings fresh_translator = []"
    by (simp add: fresh_translator_def)
  have room: "sampler_count fresh_translator = 0
      \<and> length (first_seen [5, 5, 7 :: 32 word]) \<le> length (sampler_fetch_constants fresh_translator)"
    by (simp add: fresh_translator_def seen)
  note srv = all [THEN conjunct2, THEN conjunct2, THEN conjunct1, THEN mp, OF empty,
                  unfolded seen idx]
  note smp = all [THEN conjunct2, THEN conjunct2, THEN conjunct2, THEN conjunct2, THEN conjunct2,
                  THEN mp, OF room, unfolded seen idx]
  from srv smp show ?thesis by (rule conjI)
qed

section \<open>Signed normalized vertex data\<close>

lemma sign_extend_8_min: "sign_extend_8 128 = - 128"
  by (simp add: sign_extend_8_def)

lemma snorm8_lane_min:
  assumes "rounding_ok rnd"
  shows "snorm8_lane rnd 128 = - 1"
proof -
  from assms have mono: "mono rnd" and one: "rnd (- 1) = - 1" and bit: "rnd (1 / 128) = 1 / 128"
    by (simp_all add: rounding_ok_def)
  have "rnd (1 / 128) \<le> rnd (1 / 127)"
    using mono by (rule monoD) simp
  then have "- 128 * rnd (1 / 127) \<le> - 1"
    using bit by simp
  with mono have "rnd (- 128 * rnd (1 / 127)) \<le> rnd (- 1)"
    by (rule monoD)
  then show ?thesis
    using one by (simp add: snorm8_lane_def sign_extend_8_min)
qed

lemma snorm8_lane_lower: "- 1 \<le> snorm8_lane rnd x"
  by (simp add: snorm8_lane_def)



section \<open>Predicated instructions\<close>

lemma cf_exec_pred_EndPredicatedInstruction:
  "cf_exec_pred (EndPredicatedInstruction g s) = cf_exec_pred s"
  by (simp add: EndPredicatedInstruction_def EmitSourceDepth_def EmitSource_def Unindent_def)

lemma extends_cf_exec_pred_off: "extends a b \<Longrightarrow> \<not> cf_exec_pred a \<Longrightarrow> \<not> cf_exec_pred b"
  by (simp add: extends_def)

lemma EmitVectorOpcode_setp: "is_setp_vector opc \<Longrightarrow> \<not> cf_exec_pred (EmitVectorOpcode opc s)"
  by (auto simp add: is_setp_vector_def EmitSourceDepth_def EmitSource_def)

lemma EmitScalarOpcode_setp: "is_setp_scalar opc \<Longrightarrow> \<not> cf_exec_pred (EmitScalarOpcode opc s)"
  by (auto simp add: is_setp_scalar_def EmitSourceDepth_def EmitSource_def)

text \<open>A predicate-setting ALU instruction leaves the exec-level flag off.\<close>

lemma sets_predicate_clears:
  assumes "sets_predicate a"
  shows "\<not> cf_exec_pred (ProcessExecBodyInstruction (Alu a) st)"
proof -
  have store: "\<not> cf_exec_pred (EmitStoreResult r b s)" if "\<not> cf_exec_pred s" for r b s
    using extends_EmitStoreResult [OF extends_refl, of s r b] that by (rule extends_cf_exec_pred_off)
  from assms consider
    (vector) "alu_type a = kAluVector" "is_setp_vector (alu_vector_opcode a)"
    | (scalar) "alu_type a = kAluScalar" "is_setp_scalar (alu_scalar_opcode a)"
    by (auto simp add: sets_predicate_def)
  then show ?thesis
  proof cases
    case vector
    then show ?thesis
      by (simp add: ProcessAluInstruction_def Let_def ProcessVectorAluInstruction_guarded
          cf_exec_pred_EndPredicatedInstruction VectorAluBody_def store EmitVectorOpcode_setp)
  next
    case scalar
    then show ?thesis
      by (simp add: ProcessAluInstruction_def Let_def ProcessScalarAluInstruction_guarded
          cf_exec_pred_EndPredicatedInstruction ScalarAluBody_def store EmitScalarOpcode_setp)
  qed
qed

lemma sets_predicate_clears_later:
  assumes "sets_predicate a" and "indentation_ok st"
  shows "\<not> fast_path_covers (ProcessExecBody (Alu a # later) st) c"
proof -
  have "extends st (ProcessExecBodyInstruction (Alu a) st)"
    using assms(2) by (rule ProcessExecBodyInstruction_extends)
  then have "indentation_ok (ProcessExecBodyInstruction (Alu a) st)"
    using assms(2) by (rule extends_indentation_ok)
  then have "extends (ProcessExecBodyInstruction (Alu a) st)
      (ProcessExecBody later (ProcessExecBodyInstruction (Alu a) st))"
    by (rule ProcessExecBody_extends)
  then have "\<not> cf_exec_pred (ProcessExecBody later (ProcessExecBodyInstruction (Alu a) st))"
    using sets_predicate_clears [OF assms(1)] by (rule extends_cf_exec_pred_off)
  then show ?thesis
    by (simp add: fast_path_covers_def)
qed




end
